theory Spec2Isabelle
  imports Complex_Main
begin

section \<open>Result model (pkg/compliance/types.go)\<close>

text \<open>
  Go's \<^verbatim>\<open>type CheckStatus string\<close> is a string type: the four declared constants are
  ordinary strings and any other string is a value of the type as well.
\<close>

type_synonym CheckStatus = string

abbreviation StatusPassed :: CheckStatus where "StatusPassed \<equiv> ''passed''"
abbreviation StatusFailed :: CheckStatus where "StatusFailed \<equiv> ''failed''"
abbreviation StatusSkipped :: CheckStatus where "StatusSkipped \<equiv> ''skipped''"
abbreviation StatusWarning :: CheckStatus where "StatusWarning \<equiv> ''warning''"

record CheckResult =
  RuleID :: string
  RuleName :: string
  Category :: string
  Severity :: string
  Status :: CheckStatus
  Resource :: string
  Message :: string
  Remediation :: string

record CheckOptions =
  Namespace :: string
  Image :: string
  Path :: string
  SkipRules :: "string list"
  OnlyRules :: "string list"
  MinSeverity :: string

section \<open>Filter engine (K8sChecker.filterResults, meetsMinSeverity)\<close>

text \<open>
  The \<^verbatim>\<open>levels\<close> map of \<^verbatim>\<open>meetsMinSeverity\<close>. Reading a Go map at a key it
  does not hold yields the zero value of the element type, here 0.
\<close>

definition levels_table :: "(string \<times> int) list" where
  "levels_table = [(''low'', 1), (''medium'', 2), (''high'', 3), (''critical'', 4)]"

definition levels :: "string \<Rightarrow> int" where
  "levels s = (case map_of levels_table s of None \<Rightarrow> 0 | Some n \<Rightarrow> n)"

definition meetsMinSeverity :: "string \<Rightarrow> string \<Rightarrow> bool" where
  "meetsMinSeverity severity minSeverity = (levels severity \<ge> levels minSeverity)"

text \<open>
  The two inner loops of \<^verbatim>\<open>filterResults\<close>: scan a rule list for the result's
  rule id, set the flag and break at the first hit.
\<close>

fun ruleListed :: "string \<Rightarrow> string list \<Rightarrow> bool" where
  "ruleListed rid [] = False"
| "ruleListed rid (rule # rules) = (if rid = rule then True else ruleListed rid rules)"

text \<open>
  The body of the main loop of \<^verbatim>\<open>filterResults\<close>, with \<open>filtered\<close> as the
  accumulator: the skip-list test and its \<^verbatim>\<open>continue\<close> come first, then the
  only-list test, then the minimum severity, then the append.
\<close>

fun filterLoop :: "CheckOptions \<Rightarrow> CheckResult list \<Rightarrow> CheckResult list \<Rightarrow> CheckResult list" where
  "filterLoop opts filtered [] = filtered"
| "filterLoop opts filtered (r # results) =
     (if ruleListed (RuleID r) (SkipRules opts) then filterLoop opts filtered results
      else if length (OnlyRules opts) > 0 \<and> \<not> ruleListed (RuleID r) (OnlyRules opts)
        then filterLoop opts filtered results
      else if MinSeverity opts \<noteq> '''' \<and> \<not> meetsMinSeverity (Severity r) (MinSeverity opts)
        then filterLoop opts filtered results
      else filterLoop opts (filtered @ [r]) results)"

definition filterResults :: "CheckOptions \<Rightarrow> CheckResult list \<Rightarrow> CheckResult list" where
  "filterResults opts results =
     (if length (SkipRules opts) = 0 \<and> length (OnlyRules opts) = 0 \<and> MinSeverity opts = ''''
      then results
      else filterLoop opts [] results)"

text \<open>The test one result has to pass to be appended, as a predicate.\<close>

definition kept :: "CheckOptions \<Rightarrow> CheckResult \<Rightarrow> bool" where
  "kept opts r =
     (\<not> ruleListed (RuleID r) (SkipRules opts) \<and>
      (length (OnlyRules opts) > 0 \<longrightarrow> ruleListed (RuleID r) (OnlyRules opts)) \<and>
      (MinSeverity opts \<noteq> '''' \<longrightarrow> meetsMinSeverity (Severity r) (MinSeverity opts)))"

section \<open>Report builder (runReport in cmd/compliance/report.go)\<close>

text \<open>
  A value of Go's \<^verbatim>\<open>float64\<close>, as far as the score needs it. \<open>Finite q\<close> stands for
  the float64 nearest to the rational \<open>q\<close>: rounding is not modelled, the special
  values of IEEE 754 are.
\<close>

datatype float64 = Finite rat | PosInf | NegInf | NaN

text \<open>
  \<^verbatim>\<open>float64(a) / float64(b)\<close> for two ints. Go's floating-point division does not
  panic on a zero divisor: \<open>0 / 0\<close> is NaN and \<open>a / 0\<close> is an infinity with the sign
  of \<open>a\<close> (the zero that an int converts to is positive).
\<close>

definition float64_quot :: "int \<Rightarrow> int \<Rightarrow> float64" where
  "float64_quot a b =
     (if b = 0 then (if a = 0 then NaN else if a > 0 then PosInf else NegInf)
      else Finite (of_int a / of_int b))"

text \<open>Multiplication by the constant 100 of the score formula.\<close>

fun float64_times100 :: "float64 \<Rightarrow> float64" where
  "float64_times100 (Finite q) = Finite (q * 100)"
| "float64_times100 PosInf = PosInf"
| "float64_times100 NegInf = NegInf"
| "float64_times100 NaN = NaN"

record ReportSummary =
  Total :: int
  Passed :: int
  Failed :: int
  Skipped :: int
  Score :: float64

text \<open>\<open>GeneratedAt\<close> is a \<^verbatim>\<open>time.Time\<close>; the model keeps it as a number of seconds.\<close>

record Report =
  Title :: string
  GeneratedAt :: nat
  Summary :: ReportSummary
  Results :: "CheckResult list"

text \<open>The zero value of \<^verbatim>\<open>ReportSummary\<close>, which the composite literal leaves in place.\<close>

definition zeroSummary :: ReportSummary where
  "zeroSummary = \<lparr>Total = 0, Passed = 0, Failed = 0, Skipped = 0, Score = Finite 0\<rparr>"

text \<open>The loop under \<^verbatim>\<open>if !includePassed\<close>: keep the results that are not passed.\<close>

fun dropPassedLoop :: "CheckResult list \<Rightarrow> CheckResult list \<Rightarrow> CheckResult list" where
  "dropPassedLoop filtered [] = filtered"
| "dropPassedLoop filtered (r # results) =
     (if Status r \<noteq> StatusPassed then dropPassedLoop (filtered @ [r]) results
      else dropPassedLoop filtered results)"

text \<open>
  The summary loop: a \<^verbatim>\<open>switch\<close> on the status with three cases and no default, so a
  result of any other status changes no counter.
\<close>

fun summaryLoop :: "ReportSummary \<Rightarrow> CheckResult list \<Rightarrow> ReportSummary" where
  "summaryLoop s [] = s"
| "summaryLoop s (r # results) =
     summaryLoop
       (if Status r = StatusPassed then s\<lparr>Passed := Passed s + 1\<rparr>
        else if Status r = StatusFailed then s\<lparr>Failed := Failed s + 1\<rparr>
        else if Status r = StatusSkipped then s\<lparr>Skipped := Skipped s + 1\<rparr>
        else s)
       results"

text \<open>The total and the score, computed after the loop; the guard is on the total.\<close>

definition setTotalAndScore :: "ReportSummary \<Rightarrow> CheckResult list \<Rightarrow> ReportSummary" where
  "setTotalAndScore s results =
     (let s1 = s\<lparr>Total := int (length results)\<rparr>
      in if Total s1 > 0
         then s1\<lparr>Score := float64_times100 (float64_quot (Passed s1) (Total s1 - Skipped s1))\<rparr>
         else s1)"

text \<open>
  The report that \<^verbatim>\<open>runReport\<close> builds from the results the checkers returned: the
  include-passed filter, the composite literal, the summary.
\<close>

definition runReport_report :: "string \<Rightarrow> nat \<Rightarrow> bool \<Rightarrow> CheckResult list \<Rightarrow> Report" where
  "runReport_report title now includePassed checked =
     (let results = (if \<not> includePassed then dropPassedLoop [] checked else checked)
      in \<lparr>Title = title, GeneratedAt = now,
          Summary = setTotalAndScore (summaryLoop zeroSummary results) results,
          Results = results\<rparr>)"


section \<open>JUnit renderer (generateJUnitReport)\<close>

text \<open>The verb \<^verbatim>\<open>%d\<close> of \<^verbatim>\<open>fmt.Sprintf\<close> on an int: decimal digits, a minus sign first.\<close>

fun digitsOf :: "nat \<Rightarrow> string" where
  "digitsOf n =
     (if n < 10 then [''0123456789'' ! n]
      else digitsOf (n div 10) @ [''0123456789'' ! (n mod 10)])"

declare digitsOf.simps [simp del]

definition formatInt :: "int \<Rightarrow> string" where
  "formatInt i = (if i < 0 then ''-'' @ digitsOf (nat (- i)) else digitsOf (nat i))"

text \<open>The three format strings of the renderer, each with its arguments in order.\<close>

definition testsuitesOpen :: "int \<Rightarrow> int \<Rightarrow> string" where
  \<open>testsuitesOpen tests failures =
     ''<?xml version="1.0" encoding="UTF-8"?>\<newline><testsuites name="Compliance Checks" tests="'' @
     formatInt tests @ ''" failures="'' @ formatInt failures @ ''" time="0">\<newline>''\<close>

definition testsuiteOpen :: "string \<Rightarrow> int \<Rightarrow> int \<Rightarrow> string" where
  \<open>testsuiteOpen name tests failures =
     ''  <testsuite name="'' @ name @ ''" tests="'' @ formatInt tests @
     ''" failures="'' @ formatInt failures @ ''">\<newline>''\<close>

definition testcaseXml :: "CheckResult \<Rightarrow> string" where
  \<open>testcaseXml r =
     ''    <testcase name="'' @ RuleID r @ ''" classname="'' @ Resource r @ ''">\<newline>'' @
     (if Status r = StatusFailed
      then ''      <failure message="'' @ Message r @ ''" type="'' @ Severity r @ ''">'' @
           Message r @ ''</failure>\<newline>''
      else if Status r = StatusSkipped then ''      <skipped/>\<newline>''
      else '''') @
     ''    </testcase>\<newline>''\<close>

text \<open>
  The grouping loop: \<^verbatim>\<open>byCategory[r.Category] = append(byCategory[r.Category], r)\<close>.
  A key the map does not hold yet reads as the nil slice.
\<close>

fun groupLoop ::
  "(string \<rightharpoonup> CheckResult list) \<Rightarrow> CheckResult list \<Rightarrow> (string \<rightharpoonup> CheckResult list)" where
  "groupLoop byCategory [] = byCategory"
| "groupLoop byCategory (r # results) =
     groupLoop
       (byCategory(Category r \<mapsto>
          (case byCategory (Category r) of None \<Rightarrow> [] | Some rs \<Rightarrow> rs) @ [r]))
       results"

text \<open>The loop that counts the failed results of one category.\<close>

fun countFailures :: "int \<Rightarrow> CheckResult list \<Rightarrow> int" where
  "countFailures failures [] = failures"
| "countFailures failures (r # results) =
     countFailures (if Status r = StatusFailed then failures + 1 else failures) results"

text \<open>The loop over the results of one category, appending one test case each.\<close>

fun testcasesLoop :: "string \<Rightarrow> CheckResult list \<Rightarrow> string" where
  "testcasesLoop xml [] = xml"
| "testcasesLoop xml (r # results) = testcasesLoop (xml @ testcaseXml r) results"

text \<open>
  The loop over the map. Go iterates a map in an order it does not specify, so the order
  of the keys is a parameter: \<open>order\<close> enumerates the keys of \<open>byCategory\<close>. An entry
  of \<open>order\<close> that is no key adds nothing (the loop never sees one).
\<close>

fun suitesLoop :: "(string \<rightharpoonup> CheckResult list) \<Rightarrow> string \<Rightarrow> string list \<Rightarrow> string" where
  "suitesLoop byCategory xml [] = xml"
| "suitesLoop byCategory xml (category # order) =
     (case byCategory category of
        None \<Rightarrow> suitesLoop byCategory xml order
      | Some results \<Rightarrow>
          suitesLoop byCategory
            (testcasesLoop
               (xml @ testsuiteOpen category (int (length results)) (countFailures 0 results))
               results
             @ ''  </testsuite>\<newline>'')
            order)"

definition generateJUnitReport :: "string list \<Rightarrow> Report \<Rightarrow> string" where
  "generateJUnitReport order report =
     suitesLoop (groupLoop Map.empty (Results report))
       (testsuitesOpen (Total (Summary report)) (Failed (Summary report))) order
     @ ''</testsuites>''"

text \<open>An iteration order of the map built from the results: every key, once.\<close>

definition iterationOrder :: "string list \<Rightarrow> CheckResult list \<Rightarrow> bool" where
  "iterationOrder order results = (distinct order \<and> set order = set (map Category results))"

text \<open>
  The rendering in the words of the specification, to compare the code with: the results
  of a category, and one suite element per category whose attributes are the number of
  results of the category and the number of failed ones among them.
\<close>

definition inCategory :: "string \<Rightarrow> CheckResult list \<Rightarrow> CheckResult list" where
  "inCategory category results = filter (\<lambda>r. Category r = category) results"

definition failedIn :: "CheckResult list \<Rightarrow> CheckResult list" where
  "failedIn results = filter (\<lambda>r. Status r = StatusFailed) results"

definition specSuite :: "CheckResult list \<Rightarrow> string \<Rightarrow> string" where
  \<open>specSuite results category =
     (if inCategory category results = [] then ''''
      else ''  <testsuite name="'' @ category @
           ''" tests="'' @ formatInt (int (length (inCategory category results))) @
           ''" failures="'' @ formatInt (int (length (failedIn (inCategory category results)))) @
           ''">\<newline>'' @
           concat (map testcaseXml (inCategory category results)) @
           ''  </testsuite>\<newline>'')\<close>

text \<open>
  Reading a decimal numeral back: the value of a string of digits, and the integer that
  a numeral with an optional minus sign stands for.
\<close>

definition digitValue :: "char \<Rightarrow> nat" where
  "digitValue c =
     (case map_of (zip ''0123456789'' [0, 1, 2, 3, 4, 5, 6, 7, 8, 9]) c of
        None \<Rightarrow> 0 | Some d \<Rightarrow> d)"

definition decimalValue :: "string \<Rightarrow> nat" where
  "decimalValue s = foldl (\<lambda>acc c. 10 * acc + digitValue c) 0 s"

definition parseInt :: "string \<Rightarrow> int" where
  "parseInt s =
     (case s of
        [] \<Rightarrow> 0
      | c # cs \<Rightarrow> if c = CHR ''-'' then - int (decimalValue cs) else int (decimalValue s))"

section \<open>String helpers (package strings)\<close>

text \<open>
  \<^verbatim>\<open>strings.HasPrefix\<close>, \<^verbatim>\<open>strings.HasSuffix\<close> and \<^verbatim>\<open>strings.Contains\<close> on byte
  strings. Every string has the empty prefix, suffix and substring.
\<close>

definition hasPrefix :: "string \<Rightarrow> string \<Rightarrow> bool" where
  "hasPrefix s pre = (take (length pre) s = pre)"

definition hasSuffix :: "string \<Rightarrow> string \<Rightarrow> bool" where
  "hasSuffix s suf = (length suf \<le> length s \<and> drop (length s - length suf) s = suf)"

fun containsStr :: "string \<Rightarrow> string \<Rightarrow> bool" where
  "containsStr [] sub = (sub = [])"
| "containsStr (c # cs) sub = (hasPrefix (c # cs) sub \<or> containsStr cs sub)"

text \<open>The single quote that the messages put around a name.\<close>

definition sq :: string where
  "sq = [CHR 0x27]"

section \<open>Cluster snapshots (the part of the Kubernetes API the checker reads)\<close>

datatype error = Error string

record SecurityContext =
  Privileged :: "bool option"
  RunAsNonRoot :: "bool option"
  ReadOnlyRootFilesystem :: "bool option"

datatype Probe = Probe

text \<open>
  A \<^verbatim>\<open>ResourceList\<close> maps a resource name to a quantity; of a quantity the checker
  only asks whether it is zero, so a quantity is an integer here. \<^verbatim>\<open>Cpu()\<close> and
  \<^verbatim>\<open>Memory()\<close> read the entries \<^verbatim>\<open>cpu\<close> and \<^verbatim>\<open>memory\<close>, and yield the zero quantity
  when the entry is absent.
\<close>

type_synonym ResourceList = "(string \<times> int) list"

definition Cpu :: "ResourceList \<Rightarrow> int" where
  "Cpu rl = (case map_of rl ''cpu'' of None \<Rightarrow> 0 | Some q \<Rightarrow> q)"

definition Memory :: "ResourceList \<Rightarrow> int" where
  "Memory rl = (case map_of rl ''memory'' of None \<Rightarrow> 0 | Some q \<Rightarrow> q)"

definition IsZero :: "int \<Rightarrow> bool" where
  "IsZero q = (q = 0)"

record ResourceRequirements =
  Limits :: ResourceList
  Requests :: ResourceList

record Container =
  ContainerName :: string
  ContainerImage :: string
  ImagePullPolicy :: string
  ContainerSecurityContext :: "SecurityContext option"
  LivenessProbe :: "Probe option"
  ReadinessProbe :: "Probe option"
  Resources :: ResourceRequirements

record Pod =
  PodNamespace :: string
  PodName :: string
  Containers :: "Container list"
  HostNetwork :: bool
  HostPID :: bool

record ClusterRoleBinding =
  BindingName :: string
  RoleRefName :: string

text \<open>
  What the cluster answers: whether the client can be built, the pods of a namespace
  (the empty namespace stands for all), the names of the namespaces, the number of
  network policies of a namespace, the cluster role bindings. Each query can fail.
\<close>

record Cluster =
  initClient :: "error option"
  ListPods :: "string \<Rightarrow> error + Pod list"
  ListNamespaces :: "error + string list"
  ListNetworkPolicies :: "string \<Rightarrow> error + nat"
  ListClusterRoleBindings :: "error + ClusterRoleBinding list"

section \<open>Cluster checker (K8sChecker)\<close>

text \<open>The results one container adds in \<^verbatim>\<open>checkPodSecurity\<close>, in the order of the appends.\<close>

definition podSecurityOfContainer :: "string \<Rightarrow> Container \<Rightarrow> CheckResult list" where
  "podSecurityOfContainer resource container =
     (if (case ContainerSecurityContext container of
            None \<Rightarrow> False
          | Some sc \<Rightarrow> (case Privileged sc of None \<Rightarrow> False | Some p \<Rightarrow> p))
      then [\<lparr>RuleID = ''K8S-SEC-001'', RuleName = ''No Privileged Containers'',
             Category = ''Kubernetes Security'', Severity = ''critical'', Status = StatusFailed,
             Resource = resource,
             Message = ''Container '' @ sq @ ContainerName container @ sq @
                       '' is running in privileged mode'',
             Remediation = ''Set securityContext.privileged to false''\<rparr>]
      else [\<lparr>RuleID = ''K8S-SEC-001'', RuleName = ''No Privileged Containers'',
             Category = ''Kubernetes Security'', Severity = ''critical'', Status = StatusPassed,
             Resource = resource,
             Message = ''Container '' @ sq @ ContainerName container @ sq @ '' is not privileged'',
             Remediation = ''''\<rparr>]) @
     (if (case ContainerSecurityContext container of
            None \<Rightarrow> True
          | Some sc \<Rightarrow> (case RunAsNonRoot sc of None \<Rightarrow> True | Some nr \<Rightarrow> \<not> nr))
      then [\<lparr>RuleID = ''K8S-SEC-002'', RuleName = ''Run as Non-Root'',
             Category = ''Kubernetes Security'', Severity = ''high'', Status = StatusFailed,
             Resource = resource,
             Message = ''Container '' @ sq @ ContainerName container @ sq @ '' may run as root'',
             Remediation = ''Set securityContext.runAsNonRoot to true''\<rparr>]
      else []) @
     (if (case ContainerSecurityContext container of
            None \<Rightarrow> True
          | Some sc \<Rightarrow> (case ReadOnlyRootFilesystem sc of None \<Rightarrow> True | Some ro \<Rightarrow> \<not> ro))
      then [\<lparr>RuleID = ''K8S-SEC-003'', RuleName = ''Read-Only Root Filesystem'',
             Category = ''Kubernetes Security'', Severity = ''medium'', Status = StatusFailed,
             Resource = resource,
             Message = ''Container '' @ sq @ ContainerName container @ sq @
                       '' has writable root filesystem'',
             Remediation = ''Set securityContext.readOnlyRootFilesystem to true''\<rparr>]
      else [])"

text \<open>The results one pod adds in \<^verbatim>\<open>checkPodSecurity\<close>: its containers, then the pod itself.\<close>

definition podSecurityOfPod :: "Pod \<Rightarrow> CheckResult list" where
  "podSecurityOfPod pod =
     (let resource = PodNamespace pod @ ''/'' @ PodName pod in
      concat (map (podSecurityOfContainer resource) (Containers pod)) @
      (if HostNetwork pod
       then [\<lparr>RuleID = ''K8S-SEC-004'', RuleName = ''No Host Network'',
              Category = ''Kubernetes Security'', Severity = ''high'', Status = StatusFailed,
              Resource = resource, Message = ''Pod is using host network'',
              Remediation = ''Set hostNetwork to false''\<rparr>]
       else []) @
      (if HostPID pod
       then [\<lparr>RuleID = ''K8S-SEC-005'', RuleName = ''No Host PID'',
              Category = ''Kubernetes Security'', Severity = ''high'', Status = StatusFailed,
              Resource = resource, Message = ''Pod is using host PID namespace'',
              Remediation = ''Set hostPID to false''\<rparr>]
       else []))"

definition checkPodSecurity :: "Cluster \<Rightarrow> CheckOptions \<Rightarrow> error + CheckResult list" where
  "checkPodSecurity cluster opts =
     (case ListPods cluster (Namespace opts) of
        Inl err \<Rightarrow> Inl err
      | Inr pods \<Rightarrow> Inr (concat (map podSecurityOfPod pods)))"

text \<open>The results one container adds in \<^verbatim>\<open>checkContainers\<close>.\<close>

definition containerChecksOfContainer :: "string \<Rightarrow> Container \<Rightarrow> CheckResult list" where
  "containerChecksOfContainer resource container =
     (if hasSuffix (ContainerImage container) '':latest'' \<or>
         \<not> containsStr (ContainerImage container) '':''
      then [\<lparr>RuleID = ''K8S-IMG-001'', RuleName = ''No Latest Tag'',
             Category = ''Kubernetes Best Practices'', Severity = ''medium'',
             Status = StatusFailed, Resource = resource,
             Message = ''Container '' @ sq @ ContainerName container @ sq @
                       '' uses latest or no tag: '' @ ContainerImage container,
             Remediation = ''Use specific image tags''\<rparr>]
      else []) @
     (if ImagePullPolicy container = ''Always''
      then [\<lparr>RuleID = ''K8S-IMG-002'', RuleName = ''Image Pull Policy'',
             Category = ''Kubernetes Best Practices'', Severity = ''low'',
             Status = StatusPassed, Resource = resource,
             Message = ''Container '' @ sq @ ContainerName container @ sq @
                       '' has ImagePullPolicy: Always'',
             Remediation = ''''\<rparr>]
      else []) @
     (if LivenessProbe container = None
      then [\<lparr>RuleID = ''K8S-PROBE-001'', RuleName = ''Liveness Probe'',
             Category = ''Kubernetes Best Practices'', Severity = ''medium'',
             Status = StatusFailed, Resource = resource,
             Message = ''Container '' @ sq @ ContainerName container @ sq @
                       '' has no liveness probe'',
             Remediation = ''Add a livenessProbe to the container''\<rparr>]
      else []) @
     (if ReadinessProbe container = None
      then [\<lparr>RuleID = ''K8S-PROBE-002'', RuleName = ''Readiness Probe'',
             Category = ''Kubernetes Best Practices'', Severity = ''medium'',
             Status = StatusFailed, Resource = resource,
             Message = ''Container '' @ sq @ ContainerName container @ sq @
                       '' has no readiness probe'',
             Remediation = ''Add a readinessProbe to the container''\<rparr>]
      else [])"

definition containerChecksOfPod :: "Pod \<Rightarrow> CheckResult list" where
  "containerChecksOfPod pod =
     concat (map (containerChecksOfContainer (PodNamespace pod @ ''/'' @ PodName pod))
                 (Containers pod))"

definition checkContainers :: "Cluster \<Rightarrow> CheckOptions \<Rightarrow> error + CheckResult list" where
  "checkContainers cluster opts =
     (case ListPods cluster (Namespace opts) of
        Inl err \<Rightarrow> Inl err
      | Inr pods \<Rightarrow> Inr (concat (map containerChecksOfPod pods)))"

text \<open>The results one container adds in \<^verbatim>\<open>checkResourceLimits\<close>.\<close>

definition resourceLimitsOfContainer :: "string \<Rightarrow> Container \<Rightarrow> CheckResult list" where
  "resourceLimitsOfContainer resource container =
     (if IsZero (Cpu (Limits (Resources container)))
      then [\<lparr>RuleID = ''K8S-RES-001'', RuleName = ''CPU Limits'',
             Category = ''Kubernetes Resources'', Severity = ''medium'', Status = StatusFailed,
             Resource = resource,
             Message = ''Container '' @ sq @ ContainerName container @ sq @ '' has no CPU limit'',
             Remediation = ''Set resources.limits.cpu''\<rparr>]
      else []) @
     (if IsZero (Memory (Limits (Resources container)))
      then [\<lparr>RuleID = ''K8S-RES-002'', RuleName = ''Memory Limits'',
             Category = ''Kubernetes Resources'', Severity = ''high'', Status = StatusFailed,
             Resource = resource,
             Message = ''Container '' @ sq @ ContainerName container @ sq @
                       '' has no memory limit'',
             Remediation = ''Set resources.limits.memory''\<rparr>]
      else []) @
     (if IsZero (Cpu (Requests (Resources container)))
      then [\<lparr>RuleID = ''K8S-RES-003'', RuleName = ''CPU Requests'',
             Category = ''Kubernetes Resources'', Severity = ''low'', Status = StatusFailed,
             Resource = resource,
             Message = ''Container '' @ sq @ ContainerName container @ sq @
                       '' has no CPU request'',
             Remediation = ''Set resources.requests.cpu''\<rparr>]
      else []) @
     (if IsZero (Memory (Requests (Resources container)))
      then [\<lparr>RuleID = ''K8S-RES-004'', RuleName = ''Memory Requests'',
             Category = ''Kubernetes Resources'', Severity = ''low'', Status = StatusFailed,
             Resource = resource,
             Message = ''Container '' @ sq @ ContainerName container @ sq @
                       '' has no memory request'',
             Remediation = ''Set resources.requests.memory''\<rparr>]
      else [])"

definition resourceLimitsOfPod :: "Pod \<Rightarrow> CheckResult list" where
  "resourceLimitsOfPod pod =
     concat (map (resourceLimitsOfContainer (PodNamespace pod @ ''/'' @ PodName pod))
                 (Containers pod))"

definition checkResourceLimits :: "Cluster \<Rightarrow> CheckOptions \<Rightarrow> error + CheckResult list" where
  "checkResourceLimits cluster opts =
     (case ListPods cluster (Namespace opts) of
        Inl err \<Rightarrow> Inl err
      | Inr pods \<Rightarrow> Inr (concat (map resourceLimitsOfPod pods)))"

text \<open>
  All the results one container adds in the three per-container sub-checks.
\<close>

definition perContainerResults :: "string \<Rightarrow> Container \<Rightarrow> CheckResult list" where
  "perContainerResults resource c =
     podSecurityOfContainer resource c @ containerChecksOfContainer resource c @
     resourceLimitsOfContainer resource c"

text \<open>
  The loop of \<^verbatim>\<open>checkNetworkPolicies\<close> over the namespaces: system namespaces and
  namespaces other than the selected one are skipped, and so is a namespace whose
  policies cannot be listed.
\<close>

fun networkPoliciesLoop ::
  "Cluster \<Rightarrow> CheckOptions \<Rightarrow> CheckResult list \<Rightarrow> string list \<Rightarrow> CheckResult list" where
  "networkPoliciesLoop cluster opts results [] = results"
| "networkPoliciesLoop cluster opts results (ns # namespaces) =
     (if hasPrefix ns ''kube-'' then networkPoliciesLoop cluster opts results namespaces
      else if Namespace opts \<noteq> '''' \<and> ns \<noteq> Namespace opts
        then networkPoliciesLoop cluster opts results namespaces
      else (case ListNetworkPolicies cluster ns of
              Inl err \<Rightarrow> networkPoliciesLoop cluster opts results namespaces
            | Inr n \<Rightarrow>
                networkPoliciesLoop cluster opts
                  (results @
                   [if n = 0
                    then \<lparr>RuleID = ''K8S-NET-001'', RuleName = ''Network Policies'',
                          Category = ''Kubernetes Network'', Severity = ''medium'',
                          Status = StatusFailed, Resource = ns,
                          Message = ''Namespace '' @ sq @ ns @ sq @ '' has no NetworkPolicies'',
                          Remediation = ''Define NetworkPolicies to restrict pod traffic''\<rparr>
                    else \<lparr>RuleID = ''K8S-NET-001'', RuleName = ''Network Policies'',
                          Category = ''Kubernetes Network'', Severity = ''medium'',
                          Status = StatusPassed, Resource = ns,
                          Message = ''Namespace '' @ sq @ ns @ sq @ '' has '' @
                                    formatInt (int n) @ '' NetworkPolicies'',
                          Remediation = ''''\<rparr>])
                  namespaces))"

definition checkNetworkPolicies :: "Cluster \<Rightarrow> CheckOptions \<Rightarrow> error + CheckResult list" where
  "checkNetworkPolicies cluster opts =
     (case ListNamespaces cluster of
        Inl err \<Rightarrow> Inl err
      | Inr namespaces \<Rightarrow> Inr (networkPoliciesLoop cluster opts [] namespaces))"

fun rbacLoop :: "CheckResult list \<Rightarrow> ClusterRoleBinding list \<Rightarrow> CheckResult list" where
  "rbacLoop results [] = results"
| "rbacLoop results (binding # bindings) =
     (if RoleRefName binding = ''cluster-admin''
      then (if hasPrefix (BindingName binding) ''system:'' then rbacLoop results bindings
            else rbacLoop
                   (results @
                    [\<lparr>RuleID = ''K8S-RBAC-001'', RuleName = ''Cluster Admin Bindings'',
                      Category = ''Kubernetes RBAC'', Severity = ''high'',
                      Status = StatusFailed, Resource = BindingName binding,
                      Message = ''ClusterRoleBinding '' @ sq @ BindingName binding @ sq @
                                '' grants cluster-admin'',
                      Remediation = ''Use more restrictive roles''\<rparr>])
                   bindings)
      else rbacLoop results bindings)"

definition checkRBAC :: "Cluster \<Rightarrow> CheckOptions \<Rightarrow> error + CheckResult list" where
  "checkRBAC cluster opts =
     (case ListClusterRoleBindings cluster of
        Inl err \<Rightarrow> Inl err
      | Inr bindings \<Rightarrow> Inr (rbacLoop [] bindings))"

text \<open>
  \<^verbatim>\<open>if err == nil { results = append(results, sub...) }\<close>: the results of a sub-check
  that failed are left out and its error is dropped.
\<close>

definition appendIfOk :: "CheckResult list \<Rightarrow> error + CheckResult list \<Rightarrow> CheckResult list" where
  "appendIfOk results sub = (case sub of Inl err \<Rightarrow> results | Inr rs \<Rightarrow> results @ rs)"

definition K8sChecker_Run :: "Cluster \<Rightarrow> CheckOptions \<Rightarrow> error + CheckResult list" where
  "K8sChecker_Run cluster opts =
     (case initClient cluster of
        Some err \<Rightarrow> Inl err
      | None \<Rightarrow>
          (let results = appendIfOk [] (checkPodSecurity cluster opts);
               results = appendIfOk results (checkContainers cluster opts);
               results = appendIfOk results (checkResourceLimits cluster opts);
               results = appendIfOk results (checkNetworkPolicies cluster opts);
               results = appendIfOk results (checkRBAC cluster opts)
           in Inr (filterResults opts results)))"

section \<open>Runtime snapshots (the part of the Docker API the checker reads)\<close>

record HostConfig =
  HostPrivileged :: bool
  UsernsMode :: string
  NetworkMode :: string
  PidMode :: string
  CapAdd :: "string list"
  MemoryLimit :: int
  CPUQuota :: int
  NanoCPUs :: int
  RestartPolicyName :: string
  ReadonlyRootfs :: bool

text \<open>
  \<open>Healthcheck\<close> is a pointer to a struct with the slice \<^verbatim>\<open>Test\<close>: \<open>None\<close> is the nil
  pointer, \<open>Some test\<close> a health check with that slice.
\<close>

record ContainerConfig =
  User :: string
  Healthcheck :: "string list option"

text \<open>
  An inspected container. The SDK holds the host configuration and the configuration
  behind pointers; the model takes both as present, as the daemon sends them.
\<close>

record ContainerJSON =
  InspectHostConfig :: HostConfig
  InspectConfig :: ContainerConfig

record ContainerSummary =
  ContainerID :: string
  Names :: "string list"

text \<open>
  An inspected image. \<open>ExposedPorts\<close> is a map from ports to empty structs; the list holds
  the numbers \<^verbatim>\<open>port.Int()\<close> of its keys in the order the loop meets them.
\<close>

record ImageInspect =
  RepoTags :: "string list"
  Size :: int
  ImageUser :: string
  ExposedPorts :: "int list"

text \<open>
  What the runtime answers: whether the client can be constructed, the container list,
  the inspection of a container by id and of an image by name. Each call can fail.
\<close>

record Docker =
  NewClientWithOpts :: "error option"
  ContainerList :: "error + ContainerSummary list"
  ContainerInspect :: "string \<Rightarrow> error + ContainerJSON"
  ImageInspectWithRaw :: "string \<Rightarrow> error + ImageInspect"

text \<open>A call either returns or panics (an index out of range is a run-time panic).\<close>

datatype 'a outcome = Returns 'a | Panics string

section \<open>Runtime checker (DockerChecker)\<close>

definition dangerous :: "string list" where
  "dangerous = [''SYS_ADMIN'', ''SYS_PTRACE'', ''NET_ADMIN'', ''SYS_MODULE'', ''SYS_RAWIO'',
                ''SYS_BOOT'', ''MAC_ADMIN'', ''MAC_OVERRIDE'']"

fun dangerousLoop :: "string \<Rightarrow> string list \<Rightarrow> bool" where
  "dangerousLoop cap [] = False"
| "dangerousLoop cap (d # ds) = (if cap = d then True else dangerousLoop cap ds)"

definition isDangerousCap :: "string \<Rightarrow> bool" where
  "isDangerousCap cap = dangerousLoop cap dangerous"

text \<open>The loop over the added capabilities: one result per dangerous one.\<close>

fun capabilitiesLoop :: "string \<Rightarrow> CheckResult list \<Rightarrow> string list \<Rightarrow> CheckResult list" where
  "capabilitiesLoop name results [] = results"
| "capabilitiesLoop name results (cap # caps) =
     capabilitiesLoop name
       (if isDangerousCap cap
        then results @
          [\<lparr>RuleID = ''DOCKER-SEC-005'', RuleName = ''No Dangerous Capabilities'',
            Category = ''Docker Security'', Severity = ''high'', Status = StatusFailed,
            Resource = name, Message = ''Container has dangerous capability: '' @ cap,
            Remediation = ''Remove unnecessary capabilities''\<rparr>]
        else results)
       caps"

text \<open>The results one inspected container adds, in the order of the appends.\<close>

definition containerSecurityOf :: "string \<Rightarrow> ContainerJSON \<Rightarrow> CheckResult list" where
  "containerSecurityOf name inspect =
     (let hc = InspectHostConfig inspect; cfg = InspectConfig inspect in
      (if HostPrivileged hc
       then [\<lparr>RuleID = ''DOCKER-SEC-001'', RuleName = ''No Privileged Containers'',
              Category = ''Docker Security'', Severity = ''critical'', Status = StatusFailed,
              Resource = name, Message = ''Container is running in privileged mode'',
              Remediation = ''Remove --privileged flag''\<rparr>]
       else [\<lparr>RuleID = ''DOCKER-SEC-001'', RuleName = ''No Privileged Containers'',
              Category = ''Docker Security'', Severity = ''critical'', Status = StatusPassed,
              Resource = name, Message = ''Container is not running in privileged mode'',
              Remediation = ''''\<rparr>]) @
      (if (UsernsMode hc = '''' \<or> UsernsMode hc = ''host'') \<and>
          (User cfg = '''' \<or> User cfg = ''root'' \<or> User cfg = ''0'')
       then [\<lparr>RuleID = ''DOCKER-SEC-002'', RuleName = ''Non-Root User'',
              Category = ''Docker Security'', Severity = ''high'', Status = StatusFailed,
              Resource = name, Message = ''Container is running as root'',
              Remediation = ''Use USER directive in Dockerfile or --user flag''\<rparr>]
       else []) @
      (if NetworkMode hc = ''host''
       then [\<lparr>RuleID = ''DOCKER-SEC-003'', RuleName = ''No Host Network'',
              Category = ''Docker Security'', Severity = ''high'', Status = StatusFailed,
              Resource = name, Message = ''Container is using host network'',
              Remediation = ''Use bridge or custom network''\<rparr>]
       else []) @
      (if PidMode hc = ''host''
       then [\<lparr>RuleID = ''DOCKER-SEC-004'', RuleName = ''No Host PID'',
              Category = ''Docker Security'', Severity = ''high'', Status = StatusFailed,
              Resource = name, Message = ''Container is using host PID namespace'',
              Remediation = ''Remove --pid=host flag''\<rparr>]
       else []) @
      (if length (CapAdd hc) > 0 then capabilitiesLoop name [] (CapAdd hc) else []) @
      (if MemoryLimit hc = 0
       then [\<lparr>RuleID = ''DOCKER-RES-001'', RuleName = ''Memory Limits'',
              Category = ''Docker Resources'', Severity = ''medium'', Status = StatusFailed,
              Resource = name, Message = ''Container has no memory limit'',
              Remediation = ''Set --memory flag''\<rparr>]
       else []) @
      (if CPUQuota hc = 0 \<and> NanoCPUs hc = 0
       then [\<lparr>RuleID = ''DOCKER-RES-002'', RuleName = ''CPU Limits'',
              Category = ''Docker Resources'', Severity = ''low'', Status = StatusFailed,
              Resource = name, Message = ''Container has no CPU limit'',
              Remediation = ''Set --cpus or --cpu-quota flag''\<rparr>]
       else []) @
      (if RestartPolicyName hc = '''' \<or> RestartPolicyName hc = ''no''
       then [\<lparr>RuleID = ''DOCKER-CFG-001'', RuleName = ''Restart Policy'',
              Category = ''Docker Configuration'', Severity = ''low'', Status = StatusFailed,
              Resource = name, Message = ''Container has no restart policy'',
              Remediation = ''Set --restart=unless-stopped or similar''\<rparr>]
       else []) @
      (if (case Healthcheck cfg of None \<Rightarrow> True | Some test \<Rightarrow> length test = 0)
       then [\<lparr>RuleID = ''DOCKER-CFG-002'', RuleName = ''Health Check'',
              Category = ''Docker Configuration'', Severity = ''medium'', Status = StatusFailed,
              Resource = name, Message = ''Container has no health check'',
              Remediation = ''Add HEALTHCHECK in Dockerfile or --health-cmd flag''\<rparr>]
       else []) @
      (if \<not> ReadonlyRootfs hc
       then [\<lparr>RuleID = ''DOCKER-SEC-006'', RuleName = ''Read-Only Root Filesystem'',
              Category = ''Docker Security'', Severity = ''medium'', Status = StatusFailed,
              Resource = name, Message = ''Container has writable root filesystem'',
              Remediation = ''Use --read-only flag''\<rparr>]
       else []))"

text \<open>
  The loop of \<^verbatim>\<open>checkContainerSecurity\<close> over the listed containers. \<^verbatim>\<open>cont.Names[0]\<close>
  panics for a container without names; a container that cannot be inspected is skipped.
\<close>

fun containersLoop ::
  "Docker \<Rightarrow> CheckResult list \<Rightarrow> ContainerSummary list \<Rightarrow> CheckResult list outcome" where
  "containersLoop docker results [] = Returns results"
| "containersLoop docker results (cont # containers) =
     (case Names cont of
        [] \<Rightarrow> Panics ''index out of range [0] with length 0''
      | name0 # _ \<Rightarrow>
          (let name = (if hasPrefix name0 ''/'' then drop 1 name0 else name0) in
           case ContainerInspect docker (ContainerID cont) of
             Inl err \<Rightarrow> containersLoop docker results containers
           | Inr inspect \<Rightarrow>
               containersLoop docker (results @ containerSecurityOf name inspect) containers))"

definition checkContainerSecurity :: "Docker \<Rightarrow> (error + CheckResult list) outcome" where
  "checkContainerSecurity docker =
     (case ContainerList docker of
        Inl err \<Rightarrow> Returns (Inl err)
      | Inr containers \<Rightarrow>
          (case containersLoop docker [] containers of
             Panics msg \<Rightarrow> Panics msg
           | Returns results \<Rightarrow> Returns (Inr results)))"

text \<open>The loop over the repo tags: one result at the first tag that ends in latest.\<close>

fun latestTagLoop :: "string \<Rightarrow> CheckResult list \<Rightarrow> string list \<Rightarrow> CheckResult list" where
  "latestTagLoop resource results [] = results"
| "latestTagLoop resource results (tag # tags) =
     (if hasSuffix tag '':latest''
      then results @
        [\<lparr>RuleID = ''DOCKER-IMG-001'', RuleName = ''No Latest Tag'',
          Category = ''Docker Images'', Severity = ''medium'', Status = StatusFailed,
          Resource = resource, Message = ''Image uses '' @ sq @ ''latest'' @ sq @ '' tag'',
          Remediation = ''Use specific version tags''\<rparr>]
      else latestTagLoop resource results tags)"

text \<open>Go's integer division truncates toward zero.\<close>

definition quoTrunc :: "int \<Rightarrow> int \<Rightarrow> int" where
  "quoTrunc a b = sgn a * sgn b * (\<bar>a\<bar> div \<bar>b\<bar>)"

fun portsLoop :: "string \<Rightarrow> CheckResult list \<Rightarrow> int list \<Rightarrow> CheckResult list" where
  "portsLoop resource results [] = results"
| "portsLoop resource results (portNum # ports) =
     portsLoop resource
       (if portNum < 1024
        then results @
          [\<lparr>RuleID = ''DOCKER-IMG-004'', RuleName = ''Privileged Ports'',
            Category = ''Docker Images'', Severity = ''low'', Status = StatusFailed,
            Resource = resource,
            Message = ''Image exposes privileged port: '' @ formatInt portNum,
            Remediation = ''Use ports > 1024''\<rparr>]
        else results)
       ports"

definition checkImage :: "Docker \<Rightarrow> string \<Rightarrow> error + CheckResult list" where
  "checkImage docker imageName =
     (case ImageInspectWithRaw docker imageName of
        Inl err \<Rightarrow> Inl err
      | Inr inspect \<Rightarrow>
          (let resource = imageName;
               results = latestTagLoop resource [] (RepoTags inspect);
               sizeMB = quoTrunc (Size inspect) (1024 * 1024);
               results =
                 (if sizeMB > 1000
                  then results @
                    [\<lparr>RuleID = ''DOCKER-IMG-002'', RuleName = ''Image Size'',
                      Category = ''Docker Images'', Severity = ''low'', Status = StatusFailed,
                      Resource = resource,
                      Message = ''Image is large: '' @ formatInt sizeMB @ '' MB'',
                      Remediation = ''Use multi-stage builds or smaller base images''\<rparr>]
                  else results);
               results =
                 (if ImageUser inspect = '''' \<or> ImageUser inspect = ''root'' \<or>
                     ImageUser inspect = ''0''
                  then results @
                    [\<lparr>RuleID = ''DOCKER-IMG-003'', RuleName = ''Non-Root User in Image'',
                      Category = ''Docker Images'', Severity = ''medium'',
                      Status = StatusFailed, Resource = resource,
                      Message = ''Image runs as root by default'',
                      Remediation = ''Add USER directive in Dockerfile''\<rparr>]
                  else results);
               results =
                 (if length (ExposedPorts inspect) > 0
                  then portsLoop resource results (ExposedPorts inspect)
                  else results)
           in Inr results))"

text \<open>
  \<^verbatim>\<open>DockerChecker.Run\<close>: only a failure to construct the client is returned as an
  error; the error of either sub-check is dropped with its results.
\<close>

definition DockerChecker_Run :: "Docker \<Rightarrow> CheckOptions \<Rightarrow> (error + CheckResult list) outcome" where
  "DockerChecker_Run docker opts =
     (case NewClientWithOpts docker of
        Some err \<Rightarrow> Returns (Inl err)
      | None \<Rightarrow>
          (case checkContainerSecurity docker of
             Panics msg \<Rightarrow> Panics msg
           | Returns containerResults \<Rightarrow>
               (let results = appendIfOk [] containerResults;
                    results =
                      (if Image opts \<noteq> ''''
                       then appendIfOk results (checkImage docker (Image opts))
                       else results)
                in Returns (Inr results))))"

section \<open>More string helpers (packages strings and path/filepath)\<close>

text \<open>
  Strings are byte strings, as in Go. The functions of this section work on bytes in
  the packages as well.
\<close>

text \<open>\<^verbatim>\<open>strings.Split(s, "\n")\<close>: the pieces between the line feeds, one more than line feeds.\<close>

fun splitLines :: "string \<Rightarrow> string list" where
  "splitLines [] = [[]]"
| "splitLines (c # cs) =
     (if c = CHR 0x0A then [] # splitLines cs
      else (case splitLines cs of
              [] \<Rightarrow> [[c]]
            | line # rest \<Rightarrow> (c # line) # rest))"

text \<open>
  \<^verbatim>\<open>filepath.Ext\<close>: the suffix of the last path element from its last dot on, empty
  when that element has no dot. The scan runs from the end of the path.
\<close>

fun extScan :: "string \<Rightarrow> string \<Rightarrow> string" where
  "extScan seen [] = ''''"
| "extScan seen (c # earlier) =
     (if c = CHR ''/'' then ''''
      else if c = CHR ''.'' then c # seen
      else extScan (c # seen) earlier)"

definition Ext :: "string \<Rightarrow> string" where
  "Ext path = extScan [] (rev path)"

text \<open>
  \<^verbatim>\<open>filepath.Base\<close>: the last element of the path, after trailing slashes are dropped;
  a dot for the empty path and a slash for a path of slashes only.
\<close>

definition Base :: "string \<Rightarrow> string" where
  "Base path =
     (if path = '''' then ''.''
      else (let stripped = dropWhile (\<lambda>c. c = CHR ''/'') (rev path);
                element = rev (takeWhile (\<lambda>c. c \<noteq> CHR ''/'') stripped)
            in if element = '''' then ''/'' else element))"

text \<open>
  \<^verbatim>\<open>filepath.Clean\<close> (with the slash as the only separator): the elements between
  slashes are read from left to right; an empty element and a dot are dropped; two dots
  take back the element before them if there is one that is not two dots itself, are
  dropped at the root of a rooted path, and are kept otherwise. The elements that
  remain are joined with single slashes, behind one slash for a rooted path; the empty
  result is a dot.
\<close>

fun splitSlash :: "string \<Rightarrow> string list" where
  "splitSlash [] = [[]]"
| "splitSlash (c # cs) =
     (if c = CHR ''/'' then [] # splitSlash cs
      else (case splitSlash cs of
              [] \<Rightarrow> [[c]]
            | element # rest \<Rightarrow> (c # element) # rest))"

text \<open>The elements held so far stand with the last one first.\<close>

fun cleanLoop :: "bool \<Rightarrow> string list \<Rightarrow> string list \<Rightarrow> string list" where
  "cleanLoop rooted held [] = rev held"
| "cleanLoop rooted held (element # elements) =
     (if element = '''' \<or> element = ''.'' then cleanLoop rooted held elements
      else if element = ''..''
        then (case held of
                [] \<Rightarrow> (if rooted then cleanLoop rooted [] elements
                       else cleanLoop rooted [element] elements)
              | lastHeld # below \<Rightarrow>
                  (if lastHeld \<noteq> ''..'' then cleanLoop rooted below elements
                   else cleanLoop rooted (element # held) elements))
      else cleanLoop rooted (element # held) elements)"

fun joinSlash :: "string list \<Rightarrow> string" where
  "joinSlash [] = ''''"
| "joinSlash [element] = element"
| "joinSlash (element # elements) = element @ ''/'' @ joinSlash elements"

definition Clean :: "string \<Rightarrow> string" where
  "Clean path =
     (let rooted = hasPrefix path ''/'';
          out = (if rooted then ''/'' else '''') @
                joinSlash (cleanLoop rooted [] (splitSlash path))
      in if out = '''' then ''.'' else out)"

text \<open>
  \<^verbatim>\<open>filepath.Join\<close> of two elements: the elements from the first non-empty one on are
  joined with a slash and the result is cleaned; two empty elements give the empty path.
\<close>

definition Join :: "string \<Rightarrow> string \<Rightarrow> string" where
  "Join dir name =
     (if dir \<noteq> '''' then Clean (dir @ ''/'' @ name)
      else if name \<noteq> '''' then Clean name
      else '''')"

section \<open>File system and the walk (filepath.Walk of the standard library)\<close>

text \<open>
  What is at a path: nothing that \<^verbatim>\<open>Lstat\<close> can describe, a file (with the result of
  reading it), a directory whose entries cannot be listed, or a directory with its
  entries by name.
\<close>

datatype fsnode =
    NoEntry error
  | File "error + string"
  | UnreadableDir error
  | Dir "(string \<times> fsnode) list"

fun IsDir :: "fsnode \<Rightarrow> bool" where
  "IsDir (Dir entries) = True"
| "IsDir (UnreadableDir err) = True"
| "IsDir node = False"

text \<open>The error of \<^verbatim>\<open>Lstat\<close> on what is at the path, if any.\<close>

fun lstat :: "fsnode \<Rightarrow> error option" where
  "lstat (NoEntry err) = Some err"
| "lstat node = None"

text \<open>\<^verbatim>\<open>os.ReadFile\<close> on what is at the path.\<close>

fun ReadFile :: "fsnode \<Rightarrow> error + string" where
  "ReadFile (File contents) = contents"
| "ReadFile (NoEntry err) = Inl err"
| "ReadFile (UnreadableDir err) = Inl (Error ''is a directory'')"
| "ReadFile (Dir entries) = Inl (Error ''is a directory'')"

text \<open>
  The error a walk function returns: one of the two sentinels of the package or any
  other error. The walk function gets the path, what is there, and the error the walk
  met at that path, if any; it works on a state (the variables its closure captures).
\<close>

datatype walkError = SkipDir | SkipAll | Other error

type_synonym 's WalkFunc =
  "string \<Rightarrow> fsnode \<Rightarrow> error option \<Rightarrow> 's \<Rightarrow> 's \<times> walkError option"

text \<open>
  The recursive \<^verbatim>\<open>walk\<close> of the package and its loop over the names of a directory.
  A file is handed to the walk function. A directory is handed over together with the
  error of listing it; if either that error or the function's answer is not nil, the
  answer is returned. Otherwise each entry is visited: for an entry that cannot be
  described, the function is called with the error, and its answer stops the walk
  unless it is nil or \<^verbatim>\<open>SkipDir\<close>; for any other entry the walk recurses, and an
  answer that is not nil stops the walk unless the entry is a directory and the answer
  is \<^verbatim>\<open>SkipDir\<close>.
\<close>

fun walk :: "'s WalkFunc \<Rightarrow> string \<Rightarrow> fsnode \<Rightarrow> 's \<Rightarrow> 's \<times> walkError option"
  and walkNames ::
    "'s WalkFunc \<Rightarrow> string \<Rightarrow> (string \<times> fsnode) list \<Rightarrow> 's \<Rightarrow> 's \<times> walkError option" where
  "walk walkFn path (Dir entries) st =
     (case walkFn path (Dir entries) None st of
        (st1, Some err1) \<Rightarrow> (st1, Some err1)
      | (st1, None) \<Rightarrow> walkNames walkFn path entries st1)"
| "walk walkFn path (UnreadableDir err) st = walkFn path (UnreadableDir err) (Some err) st"
| "walk walkFn path (File contents) st = walkFn path (File contents) None st"
| "walk walkFn path (NoEntry err) st = walkFn path (NoEntry err) (Some err) st"
| "walkNames walkFn path [] st = (st, None)"
| "walkNames walkFn path ((name, node) # names) st =
     (case lstat node of
        Some err \<Rightarrow>
          (case walkFn (Join path name) node (Some err) st of
             (st1, None) \<Rightarrow> walkNames walkFn path names st1
           | (st1, Some SkipDir) \<Rightarrow> walkNames walkFn path names st1
           | (st1, Some e) \<Rightarrow> (st1, Some e))
      | None \<Rightarrow>
          (case walk walkFn (Join path name) node st of
             (st1, None) \<Rightarrow> walkNames walkFn path names st1
           | (st1, Some e) \<Rightarrow>
               (if \<not> IsDir node \<or> e \<noteq> SkipDir then (st1, Some e)
                else walkNames walkFn path names st1)))"

text \<open>
  \<^verbatim>\<open>filepath.Walk\<close>: a root that cannot be described is handed to the walk function
  with the error; the two sentinels are not returned to the caller.
\<close>

definition Walk :: "string \<Rightarrow> fsnode \<Rightarrow> 's WalkFunc \<Rightarrow> 's \<Rightarrow> 's \<times> error option" where
  "Walk rootPath node walkFn st =
     (case (case lstat node of
              Some err \<Rightarrow> walkFn rootPath node (Some err) st
            | None \<Rightarrow> walk walkFn rootPath node st) of
        (st1, None) \<Rightarrow> (st1, None)
      | (st1, Some SkipDir) \<Rightarrow> (st1, None)
      | (st1, Some SkipAll) \<Rightarrow> (st1, None)
      | (st1, Some (Other err)) \<Rightarrow> (st1, Some err))"

section \<open>Decoded YAML (gopkg.in/yaml.v3 into a map of interfaces)\<close>

text \<open>
  A decoded YAML value. A Go map is kept as the list of its entries; reading a key that
  is absent, like reading any key of the nil map, gives nil, here \<open>None\<close>.
\<close>

datatype yaml =
    YNull
  | YBool bool
  | YString string
  | YNumber int
  | YList "yaml list"
  | YMap "(string \<times> yaml) list"

text \<open>
  Library functions whose result rests on Unicode tables or on the YAML grammar are
  parameters of the model: \<^verbatim>\<open>strings.ToLower\<close>, \<^verbatim>\<open>strings.ToUpper\<close> and
  \<^verbatim>\<open>strings.TrimSpace\<close>, which work on the code points of a string, and
  \<^verbatim>\<open>yaml.Unmarshal\<close> into a map, which turns the bytes of a file into a map or fails.
\<close>

record Packages =
  ToLower :: "string \<Rightarrow> string"
  ToUpper :: "string \<Rightarrow> string"
  TrimSpace :: "string \<Rightarrow> string"
  Unmarshal :: "string \<Rightarrow> error + (string \<times> yaml) list"

text \<open>\<^verbatim>\<open>m[key]\<close> on a map that may be nil.\<close>

definition index :: "(string \<times> yaml) list option \<Rightarrow> string \<Rightarrow> yaml option" where
  "index m key = (case m of None \<Rightarrow> None | Some entries \<Rightarrow> map_of entries key)"

text \<open>The type assertions with a dropped second result: the zero value on a mismatch.\<close>

fun asString :: "yaml option \<Rightarrow> string" where
  "asString (Some (YString s)) = s"
| "asString v = ''''"

fun asMap :: "yaml option \<Rightarrow> (string \<times> yaml) list option" where
  "asMap (Some (YMap entries)) = Some entries"
| "asMap v = None"

fun asList :: "yaml option \<Rightarrow> yaml list" where
  "asList (Some (YList items)) = items"
| "asList v = []"

text \<open>\<^verbatim>\<open>v == nil\<close> for an interface value read from a map.\<close>

fun isNil :: "yaml option \<Rightarrow> bool" where
  "isNil None = True"
| "isNil (Some YNull) = True"
| "isNil (Some v) = False"

definition getNestedMap :: "(string \<times> yaml) list option \<Rightarrow> string \<Rightarrow> (string \<times> yaml) list option" where
  "getNestedMap m key = asMap (index m key)"

section \<open>File checker (pkg/compliance/file_checker.go)\<close>

definition isKubernetesManifest :: "Packages \<Rightarrow> fsnode \<Rightarrow> string \<Rightarrow> bool" where
  "isKubernetesManifest pkgs node path =
     (let ext = ToLower pkgs (Ext path) in
      if ext \<noteq> ''.yaml'' \<and> ext \<noteq> ''.yml'' then False
      else (case ReadFile node of
              Inl err \<Rightarrow> False
            | Inr content \<Rightarrow> containsStr content ''apiVersion:'' \<and> containsStr content ''kind:''))"

definition isDockerfile :: "string \<Rightarrow> bool" where
  "isDockerfile path =
     (let name = Base path in name = ''Dockerfile'' \<or> hasPrefix name ''Dockerfile.'')"

definition isDockerCompose :: "Packages \<Rightarrow> string \<Rightarrow> bool" where
  "isDockerCompose pkgs path =
     (let name = ToLower pkgs (Base path) in
      name = ''docker-compose.yml'' \<or> name = ''docker-compose.yaml'' \<or>
      name = ''compose.yml'' \<or> name = ''compose.yaml'')"

text \<open>The results one container entry of a manifest adds.\<close>

definition manifestContainer :: "string \<Rightarrow> yaml \<Rightarrow> CheckResult list" where
  "manifestContainer resource c =
     (let container = asMap (Some c);
          containerName = asString (index container ''name'');
          imageRef = asString (index container ''image'');
          resources = asMap (index container ''resources'');
          noLimits =
            [\<lparr>RuleID = ''FILE-K8S-002'', RuleName = ''Resource Limits'',
              Category = ''File Compliance'', Severity = ''medium'', Status = StatusFailed,
              Resource = resource,
              Message = ''Container '' @ sq @ containerName @ sq @ '' has no resource limits'',
              Remediation = ''Add resources.limits''\<rparr>]
      in
      (if hasSuffix imageRef '':latest'' \<or> \<not> containsStr imageRef '':''
       then [\<lparr>RuleID = ''FILE-K8S-001'', RuleName = ''No Latest Tag'',
              Category = ''File Compliance'', Severity = ''medium'', Status = StatusFailed,
              Resource = resource,
              Message = ''Container '' @ sq @ containerName @ sq @ '' uses latest or no tag'',
              Remediation = ''Use specific image tags''\<rparr>]
       else []) @
      (if resources = None then noLimits
       else if asMap (index resources ''limits'') = None then noLimits
       else []) @
      (if asMap (index container ''securityContext'') = None
       then [\<lparr>RuleID = ''FILE-K8S-003'', RuleName = ''Security Context'',
              Category = ''File Compliance'', Severity = ''high'', Status = StatusFailed,
              Resource = resource,
              Message = ''Container '' @ sq @ containerName @ sq @ '' has no securityContext'',
              Remediation = ''Add securityContext with runAsNonRoot: true''\<rparr>]
       else []) @
      (if isNil (index container ''livenessProbe'')
       then [\<lparr>RuleID = ''FILE-K8S-004'', RuleName = ''Liveness Probe'',
              Category = ''File Compliance'', Severity = ''medium'', Status = StatusFailed,
              Resource = resource,
              Message = ''Container '' @ sq @ containerName @ sq @ '' has no livenessProbe'',
              Remediation = ''Add livenessProbe''\<rparr>]
       else []))"

definition checkKubernetesManifest :: "Packages \<Rightarrow> fsnode \<Rightarrow> string \<Rightarrow> error + CheckResult list" where
  "checkKubernetesManifest pkgs node path =
     (case ReadFile node of
        Inl err \<Rightarrow> Inl err
      | Inr data \<Rightarrow>
          (case Unmarshal pkgs data of
             Inl err \<Rightarrow> Inl err
           | Inr manifest \<Rightarrow>
               (let kind = asString (index (Some manifest) ''kind'') in
                if kind = ''Deployment'' \<or> kind = ''Pod'' \<or> kind = ''StatefulSet'' \<or>
                   kind = ''DaemonSet''
                then (case getNestedMap (Some manifest) ''spec'' of
                        None \<Rightarrow> Inr []
                      | Some spec0 \<Rightarrow>
                          (let spec =
                             (if kind \<noteq> ''Pod''
                              then (case getNestedMap (Some spec0) ''template'' of
                                      None \<Rightarrow> Some spec0
                                    | Some template \<Rightarrow> getNestedMap (Some template) ''spec'')
                              else Some spec0)
                           in if spec = None then Inr []
                              else Inr (concat (map (manifestContainer path)
                                          (asList (index spec ''containers''))))))
                else Inr [])))"

text \<open>
  The state of the loop of \<^verbatim>\<open>checkDockerfile\<close> over the lines: the three flags and
  the results so far.
\<close>

record DockerfileScan =
  hasUser :: bool
  hasHealthcheck :: bool
  usesLatest :: bool
  scanResults :: "CheckResult list"

definition dockerfileLine ::
  "Packages \<Rightarrow> string \<Rightarrow> DockerfileScan \<Rightarrow> string \<Rightarrow> DockerfileScan" where
  "dockerfileLine pkgs resource scan rawLine =
     (let line = TrimSpace pkgs rawLine;
          upperLine = ToUpper pkgs line;
          scan = (if hasPrefix upperLine ''USER '' then scan\<lparr>hasUser := True\<rparr> else scan);
          scan = (if hasPrefix upperLine ''HEALTHCHECK '' then scan\<lparr>hasHealthcheck := True\<rparr>
                  else scan);
          scan = (if hasPrefix upperLine ''FROM '' \<and>
                     (hasSuffix line '':latest'' \<or> \<not> containsStr line '':'')
                  then scan\<lparr>usesLatest := True\<rparr> else scan);
          scan = (if hasPrefix upperLine ''ADD '' \<and> \<not> containsStr line ''http'' \<and>
                     \<not> containsStr line ''.tar''
                  then scan\<lparr>scanResults := scanResults scan @
                    [\<lparr>RuleID = ''FILE-DOCKER-001'', RuleName = ''Use COPY Instead of ADD'',
                      Category = ''File Compliance'', Severity = ''low'', Status = StatusFailed,
                      Resource = resource,
                      Message = ''Use COPY instead of ADD for local files'',
                      Remediation = ''Replace ADD with COPY for local files''\<rparr>]\<rparr>
                  else scan);
          scan = (if (containsStr line ''curl'' \<or> containsStr line ''wget'') \<and>
                     (\<not> containsStr line ''&&'' \<or> \<not> containsStr line ''rm'')
                  then scan\<lparr>scanResults := scanResults scan @
                    [\<lparr>RuleID = ''FILE-DOCKER-002'', RuleName = ''Clean Up Downloads'',
                      Category = ''File Compliance'', Severity = ''low'', Status = StatusFailed,
                      Resource = resource,
                      Message = ''Downloaded files should be cleaned up in same layer'',
                      Remediation = ''Combine download and cleanup in single RUN command''\<rparr>]\<rparr>
                  else scan)
      in scan)"

fun dockerfileLoop ::
  "Packages \<Rightarrow> string \<Rightarrow> DockerfileScan \<Rightarrow> string list \<Rightarrow> DockerfileScan" where
  "dockerfileLoop pkgs resource scan [] = scan"
| "dockerfileLoop pkgs resource scan (line # lines) =
     dockerfileLoop pkgs resource (dockerfileLine pkgs resource scan line) lines"

definition checkDockerfile :: "Packages \<Rightarrow> fsnode \<Rightarrow> string \<Rightarrow> error + CheckResult list" where
  "checkDockerfile pkgs node path =
     (case ReadFile node of
        Inl err \<Rightarrow> Inl err
      | Inr content \<Rightarrow>
          (let scan = dockerfileLoop pkgs path
                 \<lparr>hasUser = False, hasHealthcheck = False, usesLatest = False, scanResults = []\<rparr>
                 (splitLines content);
               results = scanResults scan;
               results =
                 (if \<not> hasUser scan
                  then results @
                    [\<lparr>RuleID = ''FILE-DOCKER-003'', RuleName = ''USER Directive'',
                      Category = ''File Compliance'', Severity = ''high'', Status = StatusFailed,
                      Resource = path, Message = ''Dockerfile has no USER directive'',
                      Remediation = ''Add USER directive to run as non-root''\<rparr>]
                  else results);
               results =
                 (if \<not> hasHealthcheck scan
                  then results @
                    [\<lparr>RuleID = ''FILE-DOCKER-004'', RuleName = ''HEALTHCHECK Directive'',
                      Category = ''File Compliance'', Severity = ''medium'',
                      Status = StatusFailed, Resource = path,
                      Message = ''Dockerfile has no HEALTHCHECK'',
                      Remediation = ''Add HEALTHCHECK directive''\<rparr>]
                  else results);
               results =
                 (if usesLatest scan
                  then results @
                    [\<lparr>RuleID = ''FILE-DOCKER-005'', RuleName = ''Specific Base Image Tag'',
                      Category = ''File Compliance'', Severity = ''medium'',
                      Status = StatusFailed, Resource = path,
                      Message = ''Base image uses '' @ sq @ ''latest'' @ sq @ '' or no tag'',
                      Remediation = ''Use specific version tag for base image''\<rparr>]
                  else results)
           in Inr results))"

text \<open>
  The results one service of a compose file adds. The loop ranges over a map; the order
  of the entries in the decoded map stands for the order the loop takes.
\<close>

definition composeService :: "string \<Rightarrow> string \<Rightarrow> yaml \<Rightarrow> CheckResult list" where
  "composeService resource serviceName svc =
     (let service = asMap (Some svc) in
      (if index service ''privileged'' = Some (YBool True)
       then [\<lparr>RuleID = ''FILE-COMPOSE-001'', RuleName = ''No Privileged Services'',
              Category = ''File Compliance'', Severity = ''critical'', Status = StatusFailed,
              Resource = resource,
              Message = ''Service '' @ sq @ serviceName @ sq @ '' is privileged'',
              Remediation = ''Remove privileged: true''\<rparr>]
       else []) @
      (if index service ''network_mode'' = Some (YString ''host'')
       then [\<lparr>RuleID = ''FILE-COMPOSE-002'', RuleName = ''No Host Network'',
              Category = ''File Compliance'', Severity = ''high'', Status = StatusFailed,
              Resource = resource,
              Message = ''Service '' @ sq @ serviceName @ sq @ '' uses host network'',
              Remediation = ''Use bridge network''\<rparr>]
       else []) @
      (if isNil (index service ''restart'') \<and> isNil (index service ''deploy'')
       then [\<lparr>RuleID = ''FILE-COMPOSE-003'', RuleName = ''Restart Policy'',
              Category = ''File Compliance'', Severity = ''low'', Status = StatusFailed,
              Resource = resource,
              Message = ''Service '' @ sq @ serviceName @ sq @ '' has no restart policy'',
              Remediation = ''Add restart: unless-stopped''\<rparr>]
       else []) @
      (case index service ''image'' of
         Some (YString imageRef) \<Rightarrow>
           (if hasSuffix imageRef '':latest'' \<or> \<not> containsStr imageRef '':''
            then [\<lparr>RuleID = ''FILE-COMPOSE-004'', RuleName = ''Specific Image Tag'',
                   Category = ''File Compliance'', Severity = ''medium'',
                   Status = StatusFailed, Resource = resource,
                   Message = ''Service '' @ sq @ serviceName @ sq @ '' uses latest or no tag'',
                   Remediation = ''Use specific image tag''\<rparr>]
            else [])
       | _ \<Rightarrow> []))"

definition checkDockerCompose :: "Packages \<Rightarrow> fsnode \<Rightarrow> string \<Rightarrow> error + CheckResult list" where
  "checkDockerCompose pkgs node path =
     (case ReadFile node of
        Inl err \<Rightarrow> Inl err
      | Inr data \<Rightarrow>
          (case Unmarshal pkgs data of
             Inl err \<Rightarrow> Inl err
           | Inr compose \<Rightarrow>
               (case asMap (index (Some compose) ''services'') of
                  None \<Rightarrow> Inr []
                | Some services \<Rightarrow>
                    Inr (concat (map (\<lambda>(serviceName, svc). composeService path serviceName svc)
                                     services)))))"

text \<open>
  The walk function of \<^verbatim>\<open>FileChecker.Run\<close>. Its state is the captured \<open>results\<close>.
  Every path of it returns nil.
\<close>

definition fileWalkFn :: "Packages \<Rightarrow> CheckResult list WalkFunc" where
  "fileWalkFn pkgs path info err results =
     (if err \<noteq> None then (results, None)
      else if IsDir info then (results, None)
      else (let results =
                  (if isKubernetesManifest pkgs info path
                   then appendIfOk results (checkKubernetesManifest pkgs info path)
                   else results);
                results =
                  (if isDockerfile path
                   then appendIfOk results (checkDockerfile pkgs info path)
                   else results);
                results =
                  (if isDockerCompose pkgs path
                   then appendIfOk results (checkDockerCompose pkgs info path)
                   else results)
            in (results, None)))"

text \<open>
  \<^verbatim>\<open>FileChecker.Run\<close> on a file system that has \<open>rootNode\<close> at the path of the options:
  the results and the error of the walk.
\<close>

definition FileChecker_Run ::
  "Packages \<Rightarrow> fsnode \<Rightarrow> CheckOptions \<Rightarrow> CheckResult list \<times> error option" where
  "FileChecker_Run pkgs rootNode opts =
     Walk (Path opts) rootNode (fileWalkFn pkgs) []"

section \<open>The checks behind a report (runReport, runAllChecks and their helpers)\<close>

text \<open>
  What a run of the command meets: the cluster, the runtime, what is at a path of the
  file system, and the library functions.
\<close>

record Environment =
  Kubernetes :: Cluster
  Runtime :: Docker
  FileSystem :: "string \<Rightarrow> fsnode"
  Libraries :: Packages

definition runK8sChecks :: "Environment \<Rightarrow> CheckOptions \<Rightarrow> error + CheckResult list" where
  "runK8sChecks env opts = K8sChecker_Run (Kubernetes env) opts"

definition runDockerChecks ::
  "Environment \<Rightarrow> CheckOptions \<Rightarrow> (error + CheckResult list) outcome" where
  "runDockerChecks env opts = DockerChecker_Run (Runtime env) opts"

definition runFileChecks :: "Environment \<Rightarrow> CheckOptions \<Rightarrow> CheckResult list \<times> error option" where
  "runFileChecks env opts = FileChecker_Run (Libraries env) (FileSystem env (Path opts)) opts"

text \<open>
  \<^verbatim>\<open>runAllChecks\<close> drops the error of each checker and appends its results; a checker
  that returned an error returned the nil slice with it.
\<close>

definition runAllChecks :: "Environment \<Rightarrow> CheckOptions \<Rightarrow> (error + CheckResult list) outcome" where
  "runAllChecks env opts =
     (let k8sResults = (case runK8sChecks env opts of Inl err \<Rightarrow> [] | Inr results \<Rightarrow> results);
          allResults = [] @ k8sResults
      in case runDockerChecks env opts of
           Panics msg \<Rightarrow> Panics msg
         | Returns docker \<Rightarrow>
             (let dockerResults = (case docker of Inl err \<Rightarrow> [] | Inr results \<Rightarrow> results);
                  allResults = allResults @ dockerResults;
                  fileResults = fst (runFileChecks env opts);
                  allResults = allResults @ fileResults
              in Returns (Inr allResults)))"

text \<open>The \<^verbatim>\<open>switch\<close> of \<^verbatim>\<open>runReport\<close> on the target.\<close>

definition runReport_checks ::
  "Environment \<Rightarrow> string \<Rightarrow> CheckOptions \<Rightarrow> (error + CheckResult list) outcome" where
  "runReport_checks env target opts =
     (if target = ''k8s'' \<or> target = ''kubernetes'' then Returns (runK8sChecks env opts)
      else if target = ''docker'' then runDockerChecks env opts
      else if target = ''files'' \<or> target = ''file''
        then (case runFileChecks env opts of
                (results, None) \<Rightarrow> Returns (Inr results)
              | (results, Some err) \<Rightarrow> Returns (Inl err))
      else if target = ''all'' then runAllChecks env opts
      else Returns (Inl (Error (''unknown target: '' @ target @
                                '' (valid targets: k8s, docker, files, all)''))))"

text \<open>
  \<^verbatim>\<open>runReport\<close> up to the report it renders: the target from the arguments, the
  options from the two flags, the checks, and the report built from their results. The
  command of \<^verbatim>\<open>cmd/compliance/report.go\<close> is the case of no argument and empty flags.
\<close>

definition runReport_build ::
  "Environment \<Rightarrow> string list \<Rightarrow> string \<Rightarrow> nat \<Rightarrow> bool \<Rightarrow> string \<Rightarrow> string \<Rightarrow>
   (error + Report) outcome" where
  "runReport_build env args title now includePassed namespace imageName =
     (let target = (case args of [] \<Rightarrow> ''all'' | arg # _ \<Rightarrow> ToLower (Libraries env) arg);
          opts = \<lparr>Namespace = namespace, Image = imageName, Path = '''', SkipRules = [],
                  OnlyRules = [], MinSeverity = ''''\<rparr>
      in case runReport_checks env target opts of
           Panics msg \<Rightarrow> Panics msg
         | Returns (Inl err) \<Rightarrow> Returns (Inl err)
         | Returns (Inr results) \<Rightarrow>
             Returns (Inr (runReport_report title now includePassed results)))"

text \<open>A result with one of the two statuses that the checkers write.\<close>

definition emitted :: "CheckResult \<Rightarrow> bool" where
  "emitted r = (Status r = StatusPassed \<or> Status r = StatusFailed)"

section \<open>Policy catalog (pkg/compliance/policies.go)\<close>

record Policy =
  ID :: string
  Name :: string
  PolicyCategory :: string
  PolicySeverity :: string
  Description :: string
  PolicyRemediation :: string

definition GetBuiltinPolicies :: "Policy list" where
  "GetBuiltinPolicies =
     [
      \<lparr>ID = ''K8S-SEC-001'', Name = ''No Privileged Containers'',
        PolicyCategory = ''Kubernetes Security'', PolicySeverity = ''critical'',
        Description = ''Containers should not run in privileged mode as it grants full host access'',
        PolicyRemediation = ''Set securityContext.privileged to false''\<rparr>,
      \<lparr>ID = ''K8S-SEC-002'', Name = ''Run as Non-Root'',
        PolicyCategory = ''Kubernetes Security'', PolicySeverity = ''high'',
        Description = ''Containers should run as non-root user to limit potential damage'',
        PolicyRemediation = ''Set securityContext.runAsNonRoot to true and specify runAsUser''\<rparr>,
      \<lparr>ID = ''K8S-SEC-003'', Name = ''Read-Only Root Filesystem'',
        PolicyCategory = ''Kubernetes Security'', PolicySeverity = ''medium'',
        Description = ''Container root filesystem should be read-only to prevent modifications'',
        PolicyRemediation = ''Set securityContext.readOnlyRootFilesystem to true''\<rparr>,
      \<lparr>ID = ''K8S-SEC-004'', Name = ''No Host Network'',
        PolicyCategory = ''Kubernetes Security'', PolicySeverity = ''high'',
        Description = ''Pods should not use the host network namespace'',
        PolicyRemediation = ''Set hostNetwork to false''\<rparr>,
      \<lparr>ID = ''K8S-SEC-005'', Name = ''No Host PID'',
        PolicyCategory = ''Kubernetes Security'', PolicySeverity = ''high'',
        Description = ''Pods should not share the host PID namespace'',
        PolicyRemediation = ''Set hostPID to false''\<rparr>,
      \<lparr>ID = ''K8S-IMG-001'', Name = ''No Latest Tag'',
        PolicyCategory = ''Kubernetes Best Practices'', PolicySeverity = ''medium'',
        Description = ''Images should use specific tags instead of '' @ sq @ ''latest'' @ sq @ '''',
        PolicyRemediation = ''Use specific version tags for container images''\<rparr>,
      \<lparr>ID = ''K8S-PROBE-001'', Name = ''Liveness Probe'',
        PolicyCategory = ''Kubernetes Best Practices'', PolicySeverity = ''medium'',
        Description = ''Containers should have liveness probes for automatic restart'',
        PolicyRemediation = ''Add livenessProbe to container spec''\<rparr>,
      \<lparr>ID = ''K8S-PROBE-002'', Name = ''Readiness Probe'',
        PolicyCategory = ''Kubernetes Best Practices'', PolicySeverity = ''medium'',
        Description = ''Containers should have readiness probes for traffic management'',
        PolicyRemediation = ''Add readinessProbe to container spec''\<rparr>,
      \<lparr>ID = ''K8S-RES-001'', Name = ''CPU Limits'',
        PolicyCategory = ''Kubernetes Resources'', PolicySeverity = ''medium'',
        Description = ''Containers should have CPU limits to prevent resource starvation'',
        PolicyRemediation = ''Set resources.limits.cpu''\<rparr>,
      \<lparr>ID = ''K8S-RES-002'', Name = ''Memory Limits'',
        PolicyCategory = ''Kubernetes Resources'', PolicySeverity = ''high'',
        Description = ''Containers should have memory limits to prevent OOM issues'',
        PolicyRemediation = ''Set resources.limits.memory''\<rparr>,
      \<lparr>ID = ''K8S-NET-001'', Name = ''Network Policies'',
        PolicyCategory = ''Kubernetes Network'', PolicySeverity = ''medium'',
        Description = ''Namespaces should have NetworkPolicies to restrict traffic'',
        PolicyRemediation = ''Define NetworkPolicies for the namespace''\<rparr>,
      \<lparr>ID = ''K8S-RBAC-001'', Name = ''Cluster Admin Bindings'',
        PolicyCategory = ''Kubernetes RBAC'', PolicySeverity = ''high'',
        Description = ''Avoid granting cluster-admin role to non-system users'',
        PolicyRemediation = ''Use more restrictive roles''\<rparr>,
      \<lparr>ID = ''DOCKER-SEC-001'', Name = ''No Privileged Containers'',
        PolicyCategory = ''Docker Security'', PolicySeverity = ''critical'',
        Description = ''Containers should not run in privileged mode'',
        PolicyRemediation = ''Remove --privileged flag''\<rparr>,
      \<lparr>ID = ''DOCKER-SEC-002'', Name = ''Non-Root User'',
        PolicyCategory = ''Docker Security'', PolicySeverity = ''high'',
        Description = ''Containers should run as non-root user'',
        PolicyRemediation = ''Use USER directive in Dockerfile or --user flag''\<rparr>,
      \<lparr>ID = ''DOCKER-SEC-003'', Name = ''No Host Network'',
        PolicyCategory = ''Docker Security'', PolicySeverity = ''high'',
        Description = ''Containers should not use host network'',
        PolicyRemediation = ''Use bridge or custom network''\<rparr>,
      \<lparr>ID = ''DOCKER-SEC-004'', Name = ''No Host PID'',
        PolicyCategory = ''Docker Security'', PolicySeverity = ''high'',
        Description = ''Containers should not share host PID namespace'',
        PolicyRemediation = ''Remove --pid=host flag''\<rparr>,
      \<lparr>ID = ''DOCKER-SEC-005'', Name = ''No Dangerous Capabilities'',
        PolicyCategory = ''Docker Security'', PolicySeverity = ''high'',
        Description = ''Containers should not have dangerous Linux capabilities'',
        PolicyRemediation = ''Remove unnecessary --cap-add flags''\<rparr>,
      \<lparr>ID = ''DOCKER-SEC-006'', Name = ''Read-Only Root Filesystem'',
        PolicyCategory = ''Docker Security'', PolicySeverity = ''medium'',
        Description = ''Container root filesystem should be read-only'',
        PolicyRemediation = ''Use --read-only flag''\<rparr>,
      \<lparr>ID = ''DOCKER-RES-001'', Name = ''Memory Limits'',
        PolicyCategory = ''Docker Resources'', PolicySeverity = ''medium'',
        Description = ''Containers should have memory limits'',
        PolicyRemediation = ''Set --memory flag''\<rparr>,
      \<lparr>ID = ''DOCKER-RES-002'', Name = ''CPU Limits'',
        PolicyCategory = ''Docker Resources'', PolicySeverity = ''low'',
        Description = ''Containers should have CPU limits'',
        PolicyRemediation = ''Set --cpus or --cpu-quota flag''\<rparr>,
      \<lparr>ID = ''DOCKER-CFG-001'', Name = ''Restart Policy'',
        PolicyCategory = ''Docker Configuration'', PolicySeverity = ''low'',
        Description = ''Containers should have a restart policy'',
        PolicyRemediation = ''Set --restart=unless-stopped''\<rparr>,
      \<lparr>ID = ''DOCKER-CFG-002'', Name = ''Health Check'',
        PolicyCategory = ''Docker Configuration'', PolicySeverity = ''medium'',
        Description = ''Containers should have health checks'',
        PolicyRemediation = ''Add HEALTHCHECK in Dockerfile or --health-cmd''\<rparr>,
      \<lparr>ID = ''DOCKER-IMG-001'', Name = ''No Latest Tag'',
        PolicyCategory = ''Docker Images'', PolicySeverity = ''medium'',
        Description = ''Images should use specific tags'',
        PolicyRemediation = ''Use specific version tags''\<rparr>,
      \<lparr>ID = ''DOCKER-IMG-002'', Name = ''Image Size'',
        PolicyCategory = ''Docker Images'', PolicySeverity = ''low'',
        Description = ''Images should not be excessively large'',
        PolicyRemediation = ''Use multi-stage builds or smaller base images''\<rparr>,
      \<lparr>ID = ''DOCKER-IMG-003'', Name = ''Non-Root User in Image'',
        PolicyCategory = ''Docker Images'', PolicySeverity = ''medium'',
        Description = ''Images should define a non-root user'',
        PolicyRemediation = ''Add USER directive in Dockerfile''\<rparr>,
      \<lparr>ID = ''FILE-K8S-001'', Name = ''No Latest Tag in Manifests'',
        PolicyCategory = ''File Compliance'', PolicySeverity = ''medium'',
        Description = ''Kubernetes manifests should use specific image tags'',
        PolicyRemediation = ''Use specific version tags''\<rparr>,
      \<lparr>ID = ''FILE-K8S-002'', Name = ''Resource Limits in Manifests'',
        PolicyCategory = ''File Compliance'', PolicySeverity = ''medium'',
        Description = ''Kubernetes manifests should define resource limits'',
        PolicyRemediation = ''Add resources.limits''\<rparr>,
      \<lparr>ID = ''FILE-K8S-003'', Name = ''Security Context in Manifests'',
        PolicyCategory = ''File Compliance'', PolicySeverity = ''high'',
        Description = ''Kubernetes manifests should define security context'',
        PolicyRemediation = ''Add securityContext''\<rparr>,
      \<lparr>ID = ''FILE-DOCKER-003'', Name = ''USER in Dockerfile'',
        PolicyCategory = ''File Compliance'', PolicySeverity = ''high'',
        Description = ''Dockerfiles should define a non-root USER'',
        PolicyRemediation = ''Add USER directive''\<rparr>,
      \<lparr>ID = ''FILE-DOCKER-004'', Name = ''HEALTHCHECK in Dockerfile'',
        PolicyCategory = ''File Compliance'', PolicySeverity = ''medium'',
        Description = ''Dockerfiles should define a HEALTHCHECK'',
        PolicyRemediation = ''Add HEALTHCHECK directive''\<rparr>,
      \<lparr>ID = ''FILE-COMPOSE-001'', Name = ''No Privileged in Compose'',
        PolicyCategory = ''File Compliance'', PolicySeverity = ''critical'',
        Description = ''Docker Compose services should not be privileged'',
        PolicyRemediation = ''Remove privileged: true''\<rparr>
     ]"

text \<open>The number of catalog entries with a given rule id.\<close>

definition catalogEntries :: "string \<Rightarrow> nat" where
  "catalogEntries rid = length (filter (\<lambda>p. ID p = rid) GetBuiltinPolicies)"

section \<open>Sample values\<close>

text \<open>A result and options with the given fields and nothing else, for the concrete checks.\<close>

definition sampleResult :: "string \<Rightarrow> string \<Rightarrow> string \<Rightarrow> CheckStatus \<Rightarrow> CheckResult" where
  "sampleResult rid cat sev st =
     \<lparr>RuleID = rid, RuleName = '''', Category = cat, Severity = sev, Status = st,
      Resource = ''default/web'', Message = '''', Remediation = ''''\<rparr>"

definition sampleOptions :: "string list \<Rightarrow> string list \<Rightarrow> string \<Rightarrow> CheckOptions" where
  "sampleOptions skip only minSeverity =
     \<lparr>Namespace = '''', Image = '''', Path = '''', SkipRules = skip, OnlyRules = only,
      MinSeverity = minSeverity\<rparr>"

text \<open>
  A cluster of one pod with one container that is configured well (not privileged,
  non-root, read-only root filesystem, a pinned image, both probes, limits, a memory
  request) but sets the pull policy \<^verbatim>\<open>Always\<close> and no CPU request.
\<close>

definition sampleContainer :: Container where
  "sampleContainer =
     \<lparr>ContainerName = ''web'', ContainerImage = ''nginx:1.25'', ImagePullPolicy = ''Always'',
      ContainerSecurityContext =
        Some \<lparr>Privileged = Some False, RunAsNonRoot = Some True,
              ReadOnlyRootFilesystem = Some True\<rparr>,
      LivenessProbe = Some Probe, ReadinessProbe = Some Probe,
      Resources = \<lparr>Limits = [(''cpu'', 500), (''memory'', 256)],
                   Requests = [(''memory'', 128)]\<rparr>\<rparr>"

definition samplePod :: Pod where
  "samplePod =
     \<lparr>PodNamespace = ''default'', PodName = ''web'', Containers = [sampleContainer],
      HostNetwork = False, HostPID = False\<rparr>"

definition sampleCluster :: Cluster where
  "sampleCluster =
     \<lparr>initClient = None, ListPods = (\<lambda>ns. Inr [samplePod]),
      ListNamespaces = Inr [''default'', ''kube-system''],
      ListNetworkPolicies = (\<lambda>ns. Inr 0), ListClusterRoleBindings = Inr []\<rparr>"

text \<open>The three results the checker has for that container.\<close>

definition sampleNotPrivileged :: CheckResult where
  "sampleNotPrivileged =
     \<lparr>RuleID = ''K8S-SEC-001'', RuleName = ''No Privileged Containers'',
      Category = ''Kubernetes Security'', Severity = ''critical'', Status = StatusPassed,
      Resource = ''default/web'',
      Message = ''Container '' @ sq @ ''web'' @ sq @ '' is not privileged'',
      Remediation = ''''\<rparr>"

definition samplePullAlways :: CheckResult where
  "samplePullAlways =
     \<lparr>RuleID = ''K8S-IMG-002'', RuleName = ''Image Pull Policy'',
      Category = ''Kubernetes Best Practices'', Severity = ''low'', Status = StatusPassed,
      Resource = ''default/web'',
      Message = ''Container '' @ sq @ ''web'' @ sq @ '' has ImagePullPolicy: Always'',
      Remediation = ''''\<rparr>"

definition sampleNoCpuRequest :: CheckResult where
  "sampleNoCpuRequest =
     \<lparr>RuleID = ''K8S-RES-003'', RuleName = ''CPU Requests'',
      Category = ''Kubernetes Resources'', Severity = ''low'', Status = StatusFailed,
      Resource = ''default/web'',
      Message = ''Container '' @ sq @ ''web'' @ sq @ '' has no CPU request'',
      Remediation = ''Set resources.requests.cpu''\<rparr>"

text \<open>
  A runtime whose client can be constructed (the construction reads the environment and
  makes no connection) and whose daemon cannot be reached: every call fails.
\<close>

definition unreachableDocker :: Docker where
  "unreachableDocker =
     \<lparr>NewClientWithOpts = None,
      ContainerList = Inl (Error ''Cannot connect to the Docker daemon''),
      ContainerInspect = (\<lambda>containerID. Inl (Error ''Cannot connect to the Docker daemon'')),
      ImageInspectWithRaw = (\<lambda>imageName. Inl (Error ''Cannot connect to the Docker daemon''))\<rparr>"

definition imageOptions :: "string \<Rightarrow> CheckOptions" where
  "imageOptions imageName =
     \<lparr>Namespace = '''', Image = imageName, Path = '''', SkipRules = [], OnlyRules = [],
      MinSeverity = ''''\<rparr>"

text \<open>
  Library functions for the concrete checks. The three string functions agree with the
  package on strings of ASCII characters: the letters A to Z and a to z change case, the
  six ASCII white-space characters are trimmed. The decoder rejects every input.
\<close>

definition toLowerChar :: "char \<Rightarrow> char" where
  "toLowerChar c =
     (case map_of (zip ''ABCDEFGHIJKLMNOPQRSTUVWXYZ'' ''abcdefghijklmnopqrstuvwxyz'') c of
        None \<Rightarrow> c | Some l \<Rightarrow> l)"

definition toUpperChar :: "char \<Rightarrow> char" where
  "toUpperChar c =
     (case map_of (zip ''abcdefghijklmnopqrstuvwxyz'' ''ABCDEFGHIJKLMNOPQRSTUVWXYZ'') c of
        None \<Rightarrow> c | Some u \<Rightarrow> u)"

definition isSpace :: "char \<Rightarrow> bool" where
  "isSpace c = (c \<in> set [CHR 0x09, CHR 0x0A, CHR 0x0B, CHR 0x0C, CHR 0x0D, CHR 0x20])"

definition asciiPackages :: Packages where
  "asciiPackages =
     \<lparr>ToLower = map toLowerChar,
      ToUpper = map toUpperChar,
      TrimSpace = (\<lambda>s. rev (dropWhile isSpace (rev (dropWhile isSpace s)))),
      Unmarshal = (\<lambda>data. Inl (Error ''yaml: unmarshal errors''))\<rparr>"

text \<open>Options that name a root path.\<close>

definition pathOptions :: "string \<Rightarrow> CheckOptions" where
  "pathOptions rootPath =
     \<lparr>Namespace = '''', Image = '''', Path = rootPath, SkipRules = [], OnlyRules = [],
      MinSeverity = ''''\<rparr>"

text \<open>
  An environment with the sample cluster, the runtime that cannot be reached and
  nothing at any path; the fourth result the cluster checker has there (the namespace
  \<^verbatim>\<open>default\<close> has no network policy); and a cluster without pods.
\<close>

definition sampleEnvironment :: Environment where
  "sampleEnvironment =
     \<lparr>Kubernetes = sampleCluster, Runtime = unreachableDocker,
      FileSystem = (\<lambda>path. NoEntry (Error ''no such file or directory'')),
      Libraries = asciiPackages\<rparr>"

definition sampleNoNetworkPolicy :: CheckResult where
  "sampleNoNetworkPolicy =
     \<lparr>RuleID = ''K8S-NET-001'', RuleName = ''Network Policies'',
      Category = ''Kubernetes Network'', Severity = ''medium'', Status = StatusFailed,
      Resource = ''default'',
      Message = ''Namespace '' @ sq @ ''default'' @ sq @ '' has no NetworkPolicies'',
      Remediation = ''Define NetworkPolicies to restrict pod traffic''\<rparr>"

definition bareEnvironment :: Environment where
  "bareEnvironment =
     \<lparr>Kubernetes = sampleCluster\<lparr>ListPods := (\<lambda>ns. Inr [])\<rparr>, Runtime = unreachableDocker,
      FileSystem = (\<lambda>path. NoEntry (Error ''no such file or directory'')),
      Libraries = asciiPackages\<rparr>"

text \<open>The results of the cluster checker on the sample cluster.\<close>

definition sampleK8sResults :: "CheckResult list" where
  "sampleK8sResults =
     [sampleNotPrivileged, samplePullAlways, sampleNoCpuRequest, sampleNoNetworkPolicy]"

section \<open>Properties of the filter engine\<close>

lemma ruleListed_set: "ruleListed rid rules \<longleftrightarrow> rid \<in> set rules"
  by (induction rules) auto

lemma filterLoop_filter: "filterLoop opts acc results = acc @ filter (kept opts) results"
  by (induction results arbitrary: acc) (auto simp: kept_def)

lemma kept_fast_path:
  "length (SkipRules opts) = 0 \<and> length (OnlyRules opts) = 0 \<and> MinSeverity opts = '''' \<Longrightarrow> kept opts r"
  by (simp add: kept_def)

lemma filterResults_filter: "filterResults opts results = filter (kept opts) results"
  by (simp add: filterResults_def filterLoop_filter kept_def)

lemma levels_unrecognized:
  "s \<notin> {''low'', ''medium'', ''high'', ''critical''} \<Longrightarrow> levels s = 0"
  by (simp add: levels_def levels_table_def)

lemma levels_recognized:
  "s \<in> {''low'', ''medium'', ''high'', ''critical''} \<Longrightarrow> 1 \<le> levels s"
  by (auto simp: levels_def levels_table_def)

text \<open>
  C4. The skip-list is tested before the only-list: a rule id that stands in both lists
  is dropped, so no result of the output carries it. In particular one input result
  with that rule id (scenario E) leaves the output without it.
\<close>

theorem filterResults_skip_wins:
  assumes "rid \<in> set (SkipRules opts)" and "rid \<in> set (OnlyRules opts)"
  shows "rid \<notin> RuleID ` set (filterResults opts results)"
  using assms by (auto simp: filterResults_filter kept_def ruleListed_set)

theorem filterResults_skip_wins_witness:
  "''K8S-SEC-001'' \<in> set (SkipRules (sampleOptions [''K8S-SEC-001''] [''K8S-SEC-001''] '''')) \<and>
   ''K8S-SEC-001'' \<in> set (OnlyRules (sampleOptions [''K8S-SEC-001''] [''K8S-SEC-001''] '''')) \<and>
   ''K8S-SEC-001'' \<notin> RuleID ` set (filterResults
      (sampleOptions [''K8S-SEC-001''] [''K8S-SEC-001''] '''')
      [sampleResult ''K8S-SEC-001'' ''Kubernetes Security'' ''critical'' StatusFailed]) \<and>
   filterResults (sampleOptions [''K8S-SEC-001''] [''K8S-SEC-001''] '''')
      [sampleResult ''K8S-SEC-001'' ''Kubernetes Security'' ''critical'' StatusFailed] = []"
  using filterResults_skip_wins
    [of "''K8S-SEC-001''" "sampleOptions [''K8S-SEC-001''] [''K8S-SEC-001''] ''''"
        "[sampleResult ''K8S-SEC-001'' ''Kubernetes Security'' ''critical'' StatusFailed]"]
  by (simp add: sampleOptions_def sampleResult_def filterResults_def)

text \<open>
  C8. The filter is idempotent: for every result list and all options, filtering the
  filtered list again changes nothing.
\<close>

theorem filterResults_idempotent:
  "filterResults opts (filterResults opts results) = filterResults opts results"
  by (simp add: filterResults_filter)

text \<open>
  C10. A severity outside low, medium, high and critical has level 0, below the level
  of low; when the minimum severity is one of the four levels, a result with such a
  severity does not meet it and is not in the output of the filter.
\<close>

theorem unrecognized_severity_dropped:
  assumes "MinSeverity opts \<in> {''low'', ''medium'', ''high'', ''critical''}"
    and "Severity r \<notin> {''low'', ''medium'', ''high'', ''critical''}"
  shows "levels (Severity r) < levels ''low'' \<and>
         \<not> meetsMinSeverity (Severity r) (MinSeverity opts) \<and>
         r \<notin> set (filterResults opts results)"
proof -
  have zero: "levels (Severity r) = 0"
    using assms(2) by (rule levels_unrecognized)
  have low: "levels ''low'' = 1"
    by (simp add: levels_def levels_table_def)
  have pos: "1 \<le> levels (MinSeverity opts)"
    using assms(1) by (rule levels_recognized)
  have unmet: "\<not> meetsMinSeverity (Severity r) (MinSeverity opts)"
    using zero pos by (simp add: meetsMinSeverity_def)
  have nonempty: "MinSeverity opts \<noteq> ''''"
    using assms(1) by auto
  have "\<not> kept opts r"
    using unmet nonempty by (simp add: kept_def)
  then have "r \<notin> set (filterResults opts results)"
    by (simp add: filterResults_filter)
  with zero low unmet show ?thesis by simp
qed

theorem unrecognized_severity_dropped_witness:
  "MinSeverity (sampleOptions [] [] ''low'') \<in> {''low'', ''medium'', ''high'', ''critical''} \<and>
   Severity (sampleResult ''K8S-SEC-001'' ''Kubernetes Security'' ''warning'' StatusFailed)
     \<notin> {''low'', ''medium'', ''high'', ''critical''} \<and>
   \<not> meetsMinSeverity ''warning'' ''low'' \<and>
   filterResults (sampleOptions [] [] ''low'')
     [sampleResult ''K8S-SEC-001'' ''Kubernetes Security'' ''warning'' StatusFailed,
      sampleResult ''K8S-SEC-002'' ''Kubernetes Security'' '''' StatusFailed,
      sampleResult ''K8S-SEC-003'' ''Kubernetes Security'' ''low'' StatusFailed]
   = [sampleResult ''K8S-SEC-003'' ''Kubernetes Security'' ''low'' StatusFailed]"
  using unrecognized_severity_dropped
    [of "sampleOptions [] [] ''low''"
        "sampleResult ''K8S-SEC-001'' ''Kubernetes Security'' ''warning'' StatusFailed" "[]"]
  by (simp add: sampleOptions_def sampleResult_def filterResults_def meetsMinSeverity_def
      levels_def levels_table_def)

section \<open>Properties of the report builder\<close>

lemma dropPassedLoop_filter:
  "dropPassedLoop acc results = acc @ filter (\<lambda>r. Status r \<noteq> StatusPassed) results"
  by (induction results arbitrary: acc) auto



lemma summaryLoop_Skipped:
  "Skipped (summaryLoop s results) =
     Skipped s + int (length (filter (\<lambda>r. Status r = StatusSkipped) results))"
  by (induction results arbitrary: s) auto

lemma summaryLoop_Score: "Score (summaryLoop s results) = Score s"
  by (induction results arbitrary: s) auto


lemma setTotalAndScore_fields:
  "Total (setTotalAndScore s results) = int (length results)"
  "Passed (setTotalAndScore s results) = Passed s"
  "Failed (setTotalAndScore s results) = Failed s"
  "Skipped (setTotalAndScore s results) = Skipped s"
  by (simp_all add: setTotalAndScore_def Let_def)

lemma Summary_runReport_report:
  "Summary (runReport_report title now includePassed checked) =
     setTotalAndScore
       (summaryLoop zeroSummary (Results (runReport_report title now includePassed checked)))
       (Results (runReport_report title now includePassed checked))"
  by (simp add: runReport_report_def Let_def)

text \<open>
  The score where the code computes the formula: for a report whose results are not all
  skipped, the score is \<open>passed / (total - skipped) * 100\<close>; for the empty report it is
  the zero the summary starts with.
\<close>

lemma score_formula:
  assumes "rep = runReport_report title now includePassed checked"
    and "Total (Summary rep) - Skipped (Summary rep) \<noteq> 0"
  shows "Score (Summary rep) =
     Finite (of_int (Passed (Summary rep)) /
             of_int (Total (Summary rep) - Skipped (Summary rep)) * 100)"
proof -
  let ?rs = "Results rep"
  let ?s = "summaryLoop zeroSummary ?rs"
  have sum: "Summary rep = setTotalAndScore ?s ?rs"
    unfolding assms(1) by (rule Summary_runReport_report)
  have nz: "int (length ?rs) - Skipped ?s \<noteq> 0"
    using assms(2) by (simp add: sum setTotalAndScore_fields)
  have "Skipped ?s \<ge> 0"
    by (simp add: summaryLoop_Skipped zeroSummary_def)
  with nz have pos: "int (length ?rs) > 0"
    by (cases "?rs") (auto simp: zeroSummary_def)
  show ?thesis
    using nz pos
    by (simp add: sum setTotalAndScore_def Let_def float64_quot_def)
qed

lemma score_empty:
  "Score (Summary (runReport_report title now includePassed [])) = Finite 0"
  by (simp add: runReport_report_def setTotalAndScore_def zeroSummary_def)


text \<open>
  Two lists that no checker builds (the checkers write the statuses passed and failed
  only): on one skipped result the guard on the total lets the division of 0 by 0 run,
  and one warning result is counted in the total alone.
\<close>

lemma skipped_only_summary:
  "Summary (runReport_report ''Compliance Report'' 0 True
      [sampleResult ''K8S-SEC-001'' ''Kubernetes Security'' ''critical'' StatusSkipped])
   = \<lparr>Total = 1, Passed = 0, Failed = 0, Skipped = 1, Score = NaN\<rparr>"
  by (simp add: runReport_report_def setTotalAndScore_def zeroSummary_def sampleResult_def
      float64_quot_def)

lemma warning_only_summary:
  "Summary (runReport_report ''Compliance Report'' 0 True
      [sampleResult ''K8S-SEC-001'' ''Kubernetes Security'' ''critical'' StatusWarning])
   = \<lparr>Total = 1, Passed = 0, Failed = 0, Skipped = 0, Score = Finite 0\<rparr>"
  by (simp add: runReport_report_def setTotalAndScore_def zeroSummary_def sampleResult_def
      float64_quot_def)

section \<open>Properties of the JUnit renderer\<close>

lemma groupLoop_lookup:
  "groupLoop m results c =
     (if inCategory c results = [] then m c
      else Some ((case m c of None \<Rightarrow> [] | Some rs \<Rightarrow> rs) @ inCategory c results))"
  by (induction results arbitrary: m) (auto simp: inCategory_def)

lemma groupLoop_empty:
  "groupLoop Map.empty results c =
     (if inCategory c results = [] then None else Some (inCategory c results))"
  by (simp add: groupLoop_lookup)

lemma countFailures_length:
  "countFailures n results = n + int (length (failedIn results))"
  by (induction results arbitrary: n) (auto simp: failedIn_def)

lemma testcasesLoop_concat:
  "testcasesLoop xml results = xml @ concat (map testcaseXml results)"
  by (induction results arbitrary: xml) auto

lemma suitesLoop_grouped:
  assumes "\<And>c. m c = (if inCategory c results = [] then None else Some (inCategory c results))"
  shows "suitesLoop m xml order = xml @ concat (map (specSuite results) order)"
proof (induction order arbitrary: xml)
  case Nil
  show ?case by simp
next
  case (Cons c order)
  show ?case
  proof (cases "inCategory c results = []")
    case True
    have look: "m c = None"
      using True assms [of c] by simp
    have suite: "specSuite results c = []"
      using True by (simp add: specSuite_def)
    show ?thesis
      by (simp add: look suite Cons.IH)
  next
    case False
    have look: "m c = Some (inCategory c results)"
      using False assms [of c] by simp
    have suite: "specSuite results c =
        testsuiteOpen c (int (length (inCategory c results)))
          (int (length (failedIn (inCategory c results)))) @
        concat (map testcaseXml (inCategory c results)) @ ''  </testsuite>\<newline>''"
      using False by (simp add: specSuite_def testsuiteOpen_def)
    show ?thesis
      by (simp add: look suite Cons.IH countFailures_length testcasesLoop_concat)
  qed
qed

lemma suitesLoop_concat:
  "suitesLoop (groupLoop Map.empty results) xml order =
     xml @ concat (map (specSuite results) order)"
  by (rule suitesLoop_grouped) (rule groupLoop_empty)

text \<open>
  Over an iteration order of the categories, the \<open>tests\<close> attributes of the suites add
  up to the number of results.
\<close>

lemma indicator_count:
  "(\<Sum>c\<leftarrow>order. if x = c then 1 else 0) = count_list order x"
  by (induction order) auto

lemma distinct_count_one: "distinct xs \<Longrightarrow> x \<in> set xs \<Longrightarrow> count_list xs x = 1"
  by (induction xs) (auto simp: count_list_0_iff)

lemma inCategory_Cons_length:
  "length (inCategory c (r # rs)) = (if Category r = c then 1 else 0) + length (inCategory c rs)"
  by (simp add: inCategory_def)

lemma suite_tests_sum_aux:
  "distinct order \<Longrightarrow> Category ` set results \<subseteq> set order \<Longrightarrow>
     (\<Sum>c\<leftarrow>order. length (inCategory c results)) = length results"
proof (induction results)
  case Nil
  then show ?case by (simp add: inCategory_def)
next
  case (Cons r rs)
  have one: "(\<Sum>c\<leftarrow>order. if Category r = c then 1 else 0) = (1::nat)"
    using Cons.prems by (simp add: indicator_count distinct_count_one)
  have "(\<Sum>c\<leftarrow>order. length (inCategory c (r # rs))) =
        (\<Sum>c\<leftarrow>order. if Category r = c then 1 else 0) +
        (\<Sum>c\<leftarrow>order. length (inCategory c rs))"
    by (simp only: inCategory_Cons_length sum_list_addf)
  then show ?case
    using one Cons by simp
qed

lemma suite_tests_sum:
  assumes "iterationOrder order results"
  shows "(\<Sum>c\<leftarrow>order. length (inCategory c results)) = length results"
  using assms by (intro suite_tests_sum_aux) (auto simp: iterationOrder_def)

text \<open>
  The numeral that \<^verbatim>\<open>%d\<close> writes reads back as the number: the digits are those of the
  number, and a minus sign stands in front of a negative one only.
\<close>

lemma below_ten: "n < 10 \<Longrightarrow> n \<in> {0, 1, 2, 3, 4, 5, 6, 7, 8, 9::nat}"
  by auto

lemma digitValue_digit: "n < 10 \<Longrightarrow> digitValue (''0123456789'' ! n) = n"
  using below_ten [of n] by (auto simp: digitValue_def)

lemma digit_not_minus: "n < 10 \<Longrightarrow> ''0123456789'' ! n \<noteq> CHR ''-''"
  using below_ten [of n] by auto

lemma decimalValue_snoc: "decimalValue (s @ [c]) = 10 * decimalValue s + digitValue c"
  by (simp add: decimalValue_def)

lemma decimalValue_digitsOf: "decimalValue (digitsOf n) = n"
proof (induction n rule: digitsOf.induct)
  case (1 n)
  show ?case
  proof (cases "n < 10")
    case True
    then show ?thesis
      using digitValue_digit [of n] by (simp add: digitsOf.simps [of n] decimalValue_def)
  next
    case False
    have "decimalValue (digitsOf n) =
          10 * decimalValue (digitsOf (n div 10)) + digitValue (''0123456789'' ! (n mod 10))"
      using False by (simp add: digitsOf.simps [of n] decimalValue_snoc)
    then show ?thesis
      using False "1.IH" digitValue_digit [of "n mod 10"] by simp
  qed
qed

lemma digitsOf_head: "\<exists>c cs. digitsOf n = c # cs \<and> c \<noteq> CHR ''-''"
proof (induction n rule: digitsOf.induct)
  case (1 n)
  show ?case
  proof (cases "n < 10")
    case True
    then show ?thesis
      using digit_not_minus [of n] by (simp add: digitsOf.simps [of n])
  next
    case False
    then obtain c cs where "digitsOf (n div 10) = c # cs" and "c \<noteq> CHR ''-''"
      using "1.IH" by blast
    then show ?thesis
      using False by (simp add: digitsOf.simps [of n])
  qed
qed

lemma parseInt_formatInt: "parseInt (formatInt i) = i"
proof (cases "i < 0")
  case True
  then show ?thesis
    by (simp add: formatInt_def parseInt_def decimalValue_digitsOf)
next
  case False
  obtain c cs where "digitsOf (nat i) = c # cs" and "c \<noteq> CHR ''-''"
    using digitsOf_head by blast
  then show ?thesis
    using False decimalValue_digitsOf [of "nat i"] by (simp add: formatInt_def parseInt_def)
qed

text \<open>
  The rendering of a report of two results in two categories, one passed and one failed.
\<close>

lemma sample_rendering:
  \<open>generateJUnitReport [''Kubernetes Security'', ''Kubernetes Resources'']
     (runReport_report ''Compliance Report'' 0 True [sampleNotPrivileged, sampleNoCpuRequest]) =
   ''<?xml version="1.0" encoding="UTF-8"?>\<newline>'' @
   ''<testsuites name="Compliance Checks" tests="2" failures="1" time="0">\<newline>'' @
   ''  <testsuite name="Kubernetes Security" tests="1" failures="0">\<newline>'' @
   ''    <testcase name="K8S-SEC-001" classname="default/web">\<newline>'' @
   ''    </testcase>\<newline>'' @
   ''  </testsuite>\<newline>'' @
   ''  <testsuite name="Kubernetes Resources" tests="1" failures="1">\<newline>'' @
   ''    <testcase name="K8S-RES-003" classname="default/web">\<newline>'' @
   ''      <failure message="Container '' @ sq @ ''web'' @ sq @ '' has no CPU request" type="low">'' @
   ''Container '' @ sq @ ''web'' @ sq @ '' has no CPU request</failure>\<newline>'' @
   ''    </testcase>\<newline>'' @
   ''  </testsuite>\<newline>'' @
   ''</testsuites>''\<close>
  by (simp add: generateJUnitReport_def runReport_report_def setTotalAndScore_def
      zeroSummary_def sampleNotPrivileged_def sampleNoCpuRequest_def testsuitesOpen_def
      testsuiteOpen_def testcaseXml_def formatInt_def digitsOf.simps float64_quot_def sq_def)

text \<open>
  C5. The JUnit rendering of any report, for any iteration order of the categories. The
  top-level element carries the numeral of \<open>summary.total\<close> as its \<open>tests\<close> attribute and
  the numeral of \<open>summary.failed\<close> as its \<open>failures\<close> attribute. Each category's suite
  carries the numeral of the number of results of the category as \<open>tests\<close> and the
  numeral of the number of its failed results as \<open>failures\<close>. A numeral reads back as
  the number it was written from.
\<close>

theorem generateJUnitReport_counts:
  \<open>generateJUnitReport order report =
     ''<?xml version="1.0" encoding="UTF-8"?>\<newline><testsuites name="Compliance Checks" tests="'' @
     formatInt (Total (Summary report)) @ ''" failures="'' @
     formatInt (Failed (Summary report)) @ ''" time="0">\<newline>'' @
     concat (map (specSuite (Results report)) order) @
     ''</testsuites>'' \<and>
   parseInt (formatInt n) = n\<close>
  by (simp add: generateJUnitReport_def suitesLoop_concat testsuitesOpen_def parseInt_formatInt)

section \<open>Properties of the cluster checker\<close>

lemma sample_checkPodSecurity:
  "checkPodSecurity sampleCluster (sampleOptions [] [] '''') = Inr [sampleNotPrivileged]"
  by (simp add: checkPodSecurity_def sampleCluster_def samplePod_def sampleContainer_def
      podSecurityOfPod_def podSecurityOfContainer_def sampleNotPrivileged_def)

lemma sample_checkContainers:
  "checkContainers sampleCluster (sampleOptions [] [] '''') = Inr [samplePullAlways]"
  by (simp add: checkContainers_def sampleCluster_def samplePod_def sampleContainer_def
      containerChecksOfPod_def containerChecksOfContainer_def samplePullAlways_def
      hasSuffix_def hasPrefix_def)

lemma sample_checkResourceLimits:
  "checkResourceLimits sampleCluster (sampleOptions [] [] '''') = Inr [sampleNoCpuRequest]"
  by (simp add: checkResourceLimits_def sampleCluster_def samplePod_def sampleContainer_def
      resourceLimitsOfPod_def resourceLimitsOfContainer_def sampleNoCpuRequest_def
      IsZero_def Cpu_def Memory_def)

lemma podSecurityOfContainer_status:
  assumes "r \<in> set (podSecurityOfContainer resource c)"
  shows "(Status r = StatusPassed \<and> RuleID r = ''K8S-SEC-001'') \<or>
         (Status r = StatusFailed \<and> RuleID r \<noteq> ''K8S-IMG-002'')"
  using assms by (auto simp: podSecurityOfContainer_def split: if_splits)

lemma containerChecksOfContainer_status:
  assumes "r \<in> set (containerChecksOfContainer resource c)"
  shows "(Status r = StatusPassed \<and> RuleID r = ''K8S-IMG-002'') \<or>
         (Status r = StatusFailed \<and> RuleID r \<noteq> ''K8S-IMG-002'')"
  using assms by (auto simp: containerChecksOfContainer_def split: if_splits)

lemma resourceLimitsOfContainer_status:
  assumes "r \<in> set (resourceLimitsOfContainer resource c)"
  shows "Status r = StatusFailed \<and> RuleID r \<noteq> ''K8S-IMG-002''"
  using assms by (auto simp: resourceLimitsOfContainer_def split: if_splits)

lemma podSecurityOfPod_status:
  assumes "r \<in> set (podSecurityOfPod pod)"
  shows "(Status r = StatusPassed \<and> RuleID r = ''K8S-SEC-001'') \<or>
         (Status r = StatusFailed \<and> RuleID r \<noteq> ''K8S-IMG-002'')"
  using assms podSecurityOfContainer_status
  by (auto simp: podSecurityOfPod_def Let_def split: if_splits)

text \<open>
  The privileged-container rule has exactly one result per container, the first one:
  failed for a privileged container and passed for any other.
\<close>

lemma privileged_rule_result:
  "filter (\<lambda>r. RuleID r = ''K8S-SEC-001'') (podSecurityOfContainer resource c) =
     [hd (podSecurityOfContainer resource c)] \<and>
   Status (hd (podSecurityOfContainer resource c)) =
     (if (case ContainerSecurityContext c of
            None \<Rightarrow> False
          | Some sc \<Rightarrow> (case Privileged sc of None \<Rightarrow> False | Some p \<Rightarrow> p))
      then StatusFailed else StatusPassed)"
  by (simp add: podSecurityOfContainer_def)

text \<open>
  C6, as the code has it. Of the results of the three per-container sub-checks of the
  cluster checker, a passed one belongs to the privileged-container rule K8S-SEC-001 or
  to the pull-policy rule K8S-IMG-002, and every other result is failed. For every
  container, K8S-SEC-001 has exactly one result, failed when the container is privileged
  and passed otherwise; K8S-IMG-002 has one passed result when the pull policy is
  \<^verbatim>\<open>Always\<close> and no result otherwise. The results of every container of every
  listed pod are among the results of the three sub-checks.
\<close>

theorem per_container_passed_rules:
  assumes "checkPodSecurity cluster opts = Inr ps"
    and "checkContainers cluster opts = Inr cs"
    and "checkResourceLimits cluster opts = Inr ls"
    and "r \<in> set (ps @ cs @ ls)"
  shows "((Status r = StatusPassed \<and> (RuleID r = ''K8S-SEC-001'' \<or> RuleID r = ''K8S-IMG-002'')) \<or>
          (Status r = StatusFailed \<and> RuleID r \<noteq> ''K8S-IMG-002'')) \<and>
         map Status (filter (\<lambda>x. RuleID x = ''K8S-SEC-001'') (perContainerResults resource c)) =
           [if (case ContainerSecurityContext c of
                  None \<Rightarrow> False
                | Some sc \<Rightarrow> (case Privileged sc of None \<Rightarrow> False | Some p \<Rightarrow> p))
            then StatusFailed else StatusPassed] \<and>
         map Status (filter (\<lambda>x. RuleID x = ''K8S-IMG-002'') (perContainerResults resource c)) =
           (if ImagePullPolicy c = ''Always'' then [StatusPassed] else []) \<and>
         (ListPods cluster (Namespace opts) = Inr pods \<and> pod \<in> set pods \<and>
          c \<in> set (Containers pod) \<longrightarrow>
            set (perContainerResults (PodNamespace pod @ ''/'' @ PodName pod) c)
              \<subseteq> set (ps @ cs @ ls))"
proof (intro conjI impI)
  from assms(4) consider "r \<in> set ps" | "r \<in> set cs" | "r \<in> set ls"
    by auto
  then show "(Status r = StatusPassed \<and>
              (RuleID r = ''K8S-SEC-001'' \<or> RuleID r = ''K8S-IMG-002'')) \<or>
             (Status r = StatusFailed \<and> RuleID r \<noteq> ''K8S-IMG-002'')"
  proof cases
    case 1
    with assms(1) obtain pod where "r \<in> set (podSecurityOfPod pod)"
      by (auto simp: checkPodSecurity_def split: sum.splits)
    then show ?thesis
      using podSecurityOfPod_status by blast
  next
    case 2
    with assms(2) obtain resource c where "r \<in> set (containerChecksOfContainer resource c)"
      by (auto simp: checkContainers_def containerChecksOfPod_def split: sum.splits)
    then show ?thesis
      using containerChecksOfContainer_status by blast
  next
    case 3
    with assms(3) obtain resource c where "r \<in> set (resourceLimitsOfContainer resource c)"
      by (auto simp: checkResourceLimits_def resourceLimitsOfPod_def split: sum.splits)
    then show ?thesis
      using resourceLimitsOfContainer_status by blast
  qed
next
  show "map Status (filter (\<lambda>x. RuleID x = ''K8S-SEC-001'') (perContainerResults resource c)) =
          [if (case ContainerSecurityContext c of
                 None \<Rightarrow> False
               | Some sc \<Rightarrow> (case Privileged sc of None \<Rightarrow> False | Some p \<Rightarrow> p))
           then StatusFailed else StatusPassed]"
    by (simp add: perContainerResults_def podSecurityOfContainer_def
        containerChecksOfContainer_def resourceLimitsOfContainer_def)
next
  show "map Status (filter (\<lambda>x. RuleID x = ''K8S-IMG-002'') (perContainerResults resource c)) =
          (if ImagePullPolicy c = ''Always'' then [StatusPassed] else [])"
    by (simp add: perContainerResults_def podSecurityOfContainer_def
        containerChecksOfContainer_def resourceLimitsOfContainer_def)
next
  assume listed: "ListPods cluster (Namespace opts) = Inr pods \<and> pod \<in> set pods \<and>
                  c \<in> set (Containers pod)"
  let ?resource = "PodNamespace pod @ ''/'' @ PodName pod"
  have ps: "ps = concat (map podSecurityOfPod pods)"
    using assms(1) listed by (simp add: checkPodSecurity_def)
  have cs: "cs = concat (map containerChecksOfPod pods)"
    using assms(2) listed by (simp add: checkContainers_def)
  have ls: "ls = concat (map resourceLimitsOfPod pods)"
    using assms(3) listed by (simp add: checkResourceLimits_def)
  have "set (podSecurityOfContainer ?resource c) \<subseteq> set ps"
    using listed by (auto simp: ps podSecurityOfPod_def Let_def)
  moreover have "set (containerChecksOfContainer ?resource c) \<subseteq> set cs"
    using listed by (auto simp: cs containerChecksOfPod_def)
  moreover have "set (resourceLimitsOfContainer ?resource c) \<subseteq> set ls"
    using listed by (auto simp: ls resourceLimitsOfPod_def)
  ultimately show "set (perContainerResults ?resource c) \<subseteq> set (ps @ cs @ ls)"
    by (auto simp: perContainerResults_def)
qed

theorem per_container_passed_rules_witness:
  "checkPodSecurity sampleCluster (sampleOptions [] [] '''') = Inr [sampleNotPrivileged] \<and>
   checkContainers sampleCluster (sampleOptions [] [] '''') = Inr [samplePullAlways] \<and>
   checkResourceLimits sampleCluster (sampleOptions [] [] '''') = Inr [sampleNoCpuRequest] \<and>
   samplePullAlways \<in> set ([sampleNotPrivileged] @ [samplePullAlways] @ [sampleNoCpuRequest]) \<and>
   Status samplePullAlways = StatusPassed \<and> RuleID samplePullAlways = ''K8S-IMG-002'' \<and>
   ListPods sampleCluster (Namespace (sampleOptions [] [] '''')) = Inr [samplePod] \<and>
   samplePod \<in> set [samplePod] \<and> sampleContainer \<in> set (Containers samplePod) \<and>
   perContainerResults ''default/web'' sampleContainer =
     [sampleNotPrivileged, samplePullAlways, sampleNoCpuRequest] \<and>
   map Status (filter (\<lambda>x. RuleID x = ''K8S-SEC-001'')
     (perContainerResults ''default/web'' sampleContainer)) = [StatusPassed] \<and>
   map Status (filter (\<lambda>x. RuleID x = ''K8S-IMG-002'')
     (perContainerResults ''default/web'' sampleContainer)) = [StatusPassed]"
proof -
  have listed: "ListPods sampleCluster (Namespace (sampleOptions [] [] '''')) = Inr [samplePod]"
    by (simp add: sampleCluster_def)
  have inside: "sampleContainer \<in> set (Containers samplePod)"
    by (simp add: samplePod_def)
  have rows: "perContainerResults ''default/web'' sampleContainer =
      [sampleNotPrivileged, samplePullAlways, sampleNoCpuRequest]"
    by (simp add: sampleContainer_def perContainerResults_def podSecurityOfContainer_def
        containerChecksOfContainer_def resourceLimitsOfContainer_def sampleNotPrivileged_def
        samplePullAlways_def sampleNoCpuRequest_def hasSuffix_def hasPrefix_def IsZero_def
        Cpu_def Memory_def)
  have ids: "RuleID sampleNotPrivileged = ''K8S-SEC-001''"
    "RuleID samplePullAlways = ''K8S-IMG-002''" "RuleID sampleNoCpuRequest = ''K8S-RES-003''"
    "Status sampleNotPrivileged = StatusPassed" "Status samplePullAlways = StatusPassed"
    by (simp_all add: sampleNotPrivileged_def samplePullAlways_def sampleNoCpuRequest_def)
  show ?thesis
    using per_container_passed_rules
      [OF sample_checkPodSecurity sample_checkContainers sample_checkResourceLimits,
       of samplePullAlways "''default/web''" sampleContainer "[samplePod]" samplePod]
    by (simp add: sample_checkPodSecurity sample_checkContainers sample_checkResourceLimits
        listed inside rows ids)
qed

text \<open>
  C6 as stated fails: for a container with the pull policy \<^verbatim>\<open>Always\<close> the per-container
  rule K8S-IMG-002 emits a passed result, and it is not K8S-SEC-001.
\<close>

theorem pull_policy_passed_counterexample:
  "checkContainers sampleCluster (sampleOptions [] [] '''') =
     Inr [\<lparr>RuleID = ''K8S-IMG-002'', RuleName = ''Image Pull Policy'',
           Category = ''Kubernetes Best Practices'', Severity = ''low'',
           Status = StatusPassed, Resource = ''default/web'',
           Message = ''Container '' @ sq @ ''web'' @ sq @ '' has ImagePullPolicy: Always'',
           Remediation = ''''\<rparr>]"
  by (simp add: sample_checkContainers samplePullAlways_def)

section \<open>Properties of the policy catalog\<close>

lemma catalog_ids:
  "map ID GetBuiltinPolicies =
     [''K8S-SEC-001'', ''K8S-SEC-002'', ''K8S-SEC-003'', ''K8S-SEC-004'', ''K8S-SEC-005'',
      ''K8S-IMG-001'', ''K8S-PROBE-001'', ''K8S-PROBE-002'', ''K8S-RES-001'', ''K8S-RES-002'',
      ''K8S-NET-001'', ''K8S-RBAC-001'',
      ''DOCKER-SEC-001'', ''DOCKER-SEC-002'', ''DOCKER-SEC-003'', ''DOCKER-SEC-004'',
      ''DOCKER-SEC-005'', ''DOCKER-SEC-006'', ''DOCKER-RES-001'', ''DOCKER-RES-002'',
      ''DOCKER-CFG-001'', ''DOCKER-CFG-002'', ''DOCKER-IMG-001'', ''DOCKER-IMG-002'',
      ''DOCKER-IMG-003'',
      ''FILE-K8S-001'', ''FILE-K8S-002'', ''FILE-K8S-003'', ''FILE-DOCKER-003'',
      ''FILE-DOCKER-004'', ''FILE-COMPOSE-001'']"
  by (simp add: GetBuiltinPolicies_def)

lemma count_filter_ID: "length (filter (\<lambda>p. ID p = rid) ps) = count_list (map ID ps) rid"
  by (induction ps) auto

lemma catalogEntries_count: "catalogEntries rid = count_list (map ID GetBuiltinPolicies) rid"
  unfolding catalogEntries_def by (rule count_filter_ID)

lemma catalog_ids_distinct: "distinct (map ID GetBuiltinPolicies)"
  unfolding catalog_ids by simp

text \<open>Rule ids that the checkers emit and the catalog does not hold.\<close>

lemma catalog_missing_ids:
  "map catalogEntries
     [''K8S-IMG-002'', ''K8S-RES-003'', ''K8S-RES-004'', ''DOCKER-IMG-004'', ''FILE-K8S-004'',
      ''FILE-DOCKER-001'', ''FILE-DOCKER-002'', ''FILE-DOCKER-005'', ''FILE-COMPOSE-002'',
      ''FILE-COMPOSE-003'', ''FILE-COMPOSE-004'']
   = [0, 0, 0, 0, 0, 0, 0, 0, 0, 0, 0]"
  by (simp add: catalogEntries_count catalog_ids)

text \<open>
  C2. Every rule id a checker emits has exactly one catalog entry. The code breaks it:
  for a container without a CPU request the cluster checker emits K8S-RES-003, and the
  catalog has no entry with that id.
\<close>

theorem catalog_misses_emitted_rule:
  "checkResourceLimits sampleCluster (sampleOptions [] [] '''') =
     Inr [\<lparr>RuleID = ''K8S-RES-003'', RuleName = ''CPU Requests'',
           Category = ''Kubernetes Resources'', Severity = ''low'', Status = StatusFailed,
           Resource = ''default/web'',
           Message = ''Container '' @ sq @ ''web'' @ sq @ '' has no CPU request'',
           Remediation = ''Set resources.requests.cpu''\<rparr>] \<and>
   catalogEntries ''K8S-RES-003'' = 0"
  by (simp add: sample_checkResourceLimits sampleNoCpuRequest_def catalogEntries_count
      catalog_ids)

section \<open>Properties of the runtime checker\<close>

lemma DockerChecker_Run_client_error:
  "NewClientWithOpts docker = Some err \<Longrightarrow> DockerChecker_Run docker opts = Returns (Inl err)"
  by (simp add: DockerChecker_Run_def)

lemma checkContainerSecurity_list_error:
  "ContainerList docker = Inl err \<Longrightarrow> checkContainerSecurity docker = Returns (Inl err)"
  by (simp add: checkContainerSecurity_def)

lemma DockerChecker_Run_no_client_error:
  "NewClientWithOpts docker = None \<Longrightarrow> DockerChecker_Run docker opts \<noteq> Returns (Inl err)"
  by (auto simp: DockerChecker_Run_def Let_def split: outcome.splits)

text \<open>
  C7, as the code has it. \<^verbatim>\<open>DockerChecker.Run\<close> returns an error exactly when the
  client cannot be constructed. When the client is constructed and the container list
  cannot be obtained, the failure is dropped: \<^verbatim>\<open>Run\<close> returns a nil error and a list
  without container results, which holds the image results if an image is named and
  can be inspected.
\<close>

theorem DockerChecker_Run_errors:
  "(DockerChecker_Run docker opts = Returns (Inl err) \<longleftrightarrow> NewClientWithOpts docker = Some err) \<and>
   (NewClientWithOpts docker = None \<and> ContainerList docker = Inl listErr \<longrightarrow>
      DockerChecker_Run docker opts =
        Returns (Inr (if Image opts \<noteq> '''' then appendIfOk [] (checkImage docker (Image opts))
                      else [])))"
proof (intro conjI impI)
  show "DockerChecker_Run docker opts = Returns (Inl err) \<longleftrightarrow> NewClientWithOpts docker = Some err"
  proof (cases "NewClientWithOpts docker")
    case None
    then show ?thesis
      using DockerChecker_Run_no_client_error [of docker opts err] by simp
  next
    case (Some e)
    then show ?thesis
      using DockerChecker_Run_client_error [of docker e opts] by auto
  qed
next
  assume "NewClientWithOpts docker = None \<and> ContainerList docker = Inl listErr"
  then show "DockerChecker_Run docker opts =
      Returns (Inr (if Image opts \<noteq> '''' then appendIfOk [] (checkImage docker (Image opts))
                    else []))"
    by (simp add: DockerChecker_Run_def checkContainerSecurity_list_error appendIfOk_def)
qed

theorem DockerChecker_Run_errors_witness:
  "NewClientWithOpts unreachableDocker = None \<and>
   ContainerList unreachableDocker = Inl (Error ''Cannot connect to the Docker daemon'') \<and>
   DockerChecker_Run unreachableDocker (imageOptions ''nginx:latest'') = Returns (Inr [])"
  using DockerChecker_Run_errors
    [of unreachableDocker "imageOptions ''nginx:latest''" "Error ''Cannot connect to the Docker daemon''"
        "Error ''Cannot connect to the Docker daemon''"]
  by (simp add: unreachableDocker_def imageOptions_def checkImage_def appendIfOk_def)

text \<open>
  C7 as stated fails: with a daemon that cannot be reached, the container list fails and
  \<^verbatim>\<open>Run\<close> returns no results and a nil error.
\<close>

theorem unreachable_runtime_counterexample:
  "ContainerList unreachableDocker = Inl (Error ''Cannot connect to the Docker daemon'') \<and>
   DockerChecker_Run unreachableDocker (sampleOptions [] [] '''') = Returns (Inr [])"
  by (simp add: unreachableDocker_def sampleOptions_def DockerChecker_Run_def
      checkContainerSecurity_def appendIfOk_def)

section \<open>Properties of the file checker\<close>

lemma fileWalkFn_nil: "snd (fileWalkFn pkgs path info err results) = None"
  by (simp add: fileWalkFn_def Let_def)

text \<open>A walk returns no error when the walk function never returns one.\<close>

lemma walk_nil_aux:
  "(\<forall>p i e s. snd (walkFn p i e s) = None) \<Longrightarrow> snd (walk walkFn path node st) = None"
  "(\<forall>p i e s. snd (walkFn p i e s) = None) \<Longrightarrow> snd (walkNames walkFn path entries st) = None"
proof (induction walkFn path node st and walkFn path entries st rule: walk_walkNames.induct)
  case (1 walkFn path entries st)
  obtain st1 where call: "walkFn path (Dir entries) None st = (st1, None)"
    using "1.prems" by (metis prod.collapse)
  have "snd (walkNames walkFn path entries st1) = None"
    using "1.IH" call "1.prems" by simp
  then show ?case
    using call by simp
next
  case (6 walkFn path name node names st)
  show ?case
  proof (cases "lstat node")
    case (Some err)
    obtain st1 where call: "walkFn (Join path name) node (Some err) st = (st1, None)"
      using "6.prems" by (metis prod.collapse)
    have "snd (walkNames walkFn path names st1) = None"
      using "6.IH"(4) [of err st1 None] Some call "6.prems" by simp
    then show ?thesis
      using Some call by simp
  next
    case None
    obtain st1 where call: "walk walkFn (Join path name) node st = (st1, None)"
      using "6.IH"(1) None "6.prems" by (metis prod.collapse)
    have "snd (walkNames walkFn path names st1) = None"
      using "6.IH"(2) [of st1 None] None call "6.prems" by simp
    then show ?thesis
      using None call by simp
  qed
qed simp_all

lemma walk_nil:
  assumes nil: "\<And>path info err st. snd (walkFn path info err st) = None"
  shows "snd (walk walkFn path node st) = None"
  using nil by (intro walk_nil_aux(1)) simp

lemma Walk_nil:
  assumes nil: "\<And>path info err st. snd (walkFn path info err st) = None"
  shows "snd (Walk rootPath node walkFn st) = None"
proof -
  have inner: "snd (case lstat node of
                      Some err \<Rightarrow> walkFn rootPath node (Some err) st
                    | None \<Rightarrow> walk walkFn rootPath node st) = None"
    using nil walk_nil [of walkFn rootPath node st, OF nil]
    by (cases "lstat node") simp_all
  then show ?thesis
    unfolding Walk_def
    by (cases "case lstat node of
                 Some err \<Rightarrow> walkFn rootPath node (Some err) st
               | None \<Rightarrow> walk walkFn rootPath node st") simp
qed

text \<open>
  A directory with one build file that names a pinned base image and has neither a
  \<^verbatim>\<open>USER\<close> nor a \<^verbatim>\<open>HEALTHCHECK\<close> line: two findings, and no error.
\<close>

lemma sample_build_file:
  "FileChecker_Run asciiPackages
     (Dir [(''Dockerfile'', File (Inr ''FROM ubuntu:22.04\<newline>RUN apt-get update\<newline>''))])
     (pathOptions ''repo'') =
   ([\<lparr>RuleID = ''FILE-DOCKER-003'', RuleName = ''USER Directive'',
       Category = ''File Compliance'', Severity = ''high'', Status = StatusFailed,
       Resource = ''repo/Dockerfile'', Message = ''Dockerfile has no USER directive'',
       Remediation = ''Add USER directive to run as non-root''\<rparr>,
     \<lparr>RuleID = ''FILE-DOCKER-004'', RuleName = ''HEALTHCHECK Directive'',
       Category = ''File Compliance'', Severity = ''medium'', Status = StatusFailed,
       Resource = ''repo/Dockerfile'', Message = ''Dockerfile has no HEALTHCHECK'',
       Remediation = ''Add HEALTHCHECK directive''\<rparr>],
    None)"
  by (simp add: FileChecker_Run_def Walk_def fileWalkFn_def pathOptions_def
      isKubernetesManifest_def isDockerfile_def isDockerCompose_def checkDockerfile_def
      dockerfileLine_def Base_def Ext_def asciiPackages_def toLowerChar_def toUpperChar_def
      isSpace_def Join_def Clean_def hasPrefix_def hasSuffix_def
      appendIfOk_def Let_def)

text \<open>
  C9. For whatever is at the root path, \<^verbatim>\<open>FileChecker.Run\<close> returns a nil error.
  For a root that does not exist or cannot be listed it returns no results with it.
\<close>

theorem FileChecker_Run_nil_error:
  "snd (FileChecker_Run pkgs rootNode opts) = None \<and>
   FileChecker_Run pkgs (NoEntry err) opts = ([], None) \<and>
   FileChecker_Run pkgs (UnreadableDir err) opts = ([], None)"
proof -
  have "snd (FileChecker_Run pkgs rootNode opts) = None"
    unfolding FileChecker_Run_def by (rule Walk_nil) (rule fileWalkFn_nil)
  moreover have "FileChecker_Run pkgs (NoEntry err) opts = ([], None)"
    by (simp add: FileChecker_Run_def Walk_def fileWalkFn_def)
  moreover have "FileChecker_Run pkgs (UnreadableDir err) opts = ([], None)"
    by (simp add: FileChecker_Run_def Walk_def fileWalkFn_def)
  ultimately show ?thesis by simp
qed

section \<open>Properties of the reports the command builds\<close>

text \<open>Every checker writes the statuses passed and failed only.\<close>

lemma emitted_failed [simp]:
  "emitted \<lparr>RuleID = a, RuleName = b, Category = c, Severity = d, Status = StatusFailed,
            Resource = e, Message = f, Remediation = g\<rparr>"
  by (simp add: emitted_def)

lemma emitted_passed [simp]:
  "emitted \<lparr>RuleID = a, RuleName = b, Category = c, Severity = d, Status = StatusPassed,
            Resource = e, Message = f, Remediation = g\<rparr>"
  by (simp add: emitted_def)

lemma list_all_concat_map:
  "(\<And>x. list_all P (f x)) \<Longrightarrow> list_all P (concat (map f xs))"
  by (induction xs) auto

lemma appendIfOk_emitted:
  "list_all emitted results \<Longrightarrow> (\<And>rs. sub = Inr rs \<Longrightarrow> list_all emitted rs) \<Longrightarrow>
   list_all emitted (appendIfOk results sub)"
  by (auto simp: appendIfOk_def split: sum.splits)

lemma podSecurityOfContainer_emitted: "list_all emitted (podSecurityOfContainer resource c)"
  by (simp add: podSecurityOfContainer_def)

lemma podSecurityOfPod_emitted: "list_all emitted (podSecurityOfPod pod)"
  by (simp add: podSecurityOfPod_def Let_def list_all_concat_map podSecurityOfContainer_emitted)

lemma checkPodSecurity_emitted:
  "checkPodSecurity cluster opts = Inr rs \<Longrightarrow> list_all emitted rs"
  by (auto simp: checkPodSecurity_def list_all_concat_map podSecurityOfPod_emitted
      split: sum.splits)

lemma containerChecksOfContainer_emitted:
  "list_all emitted (containerChecksOfContainer resource c)"
  by (simp add: containerChecksOfContainer_def)

lemma checkContainers_emitted:
  "checkContainers cluster opts = Inr rs \<Longrightarrow> list_all emitted rs"
  by (auto simp: checkContainers_def containerChecksOfPod_def list_all_concat_map
      containerChecksOfContainer_emitted split: sum.splits)

lemma resourceLimitsOfContainer_emitted:
  "list_all emitted (resourceLimitsOfContainer resource c)"
  by (simp add: resourceLimitsOfContainer_def)

lemma checkResourceLimits_emitted:
  "checkResourceLimits cluster opts = Inr rs \<Longrightarrow> list_all emitted rs"
  by (auto simp: checkResourceLimits_def resourceLimitsOfPod_def list_all_concat_map
      resourceLimitsOfContainer_emitted split: sum.splits)

lemma networkPoliciesLoop_emitted:
  "list_all emitted (networkPoliciesLoop cluster opts results namespaces) =
     list_all emitted results"
  by (induction namespaces arbitrary: results) (simp_all split: sum.splits)

lemma checkNetworkPolicies_emitted:
  "checkNetworkPolicies cluster opts = Inr rs \<Longrightarrow> list_all emitted rs"
  by (auto simp: checkNetworkPolicies_def networkPoliciesLoop_emitted split: sum.splits)

lemma rbacLoop_emitted:
  "list_all emitted (rbacLoop results bindings) = list_all emitted results"
  by (induction bindings arbitrary: results) simp_all

lemma checkRBAC_emitted:
  "checkRBAC cluster opts = Inr rs \<Longrightarrow> list_all emitted rs"
  by (auto simp: checkRBAC_def rbacLoop_emitted split: sum.splits)

lemma list_all_filterResults:
  "list_all P results \<Longrightarrow> list_all P (filterResults opts results)"
  by (simp add: filterResults_filter list_all_iff)

lemma K8sChecker_Run_emitted:
  assumes "K8sChecker_Run cluster opts = Inr rs"
  shows "list_all emitted rs"
proof -
  let ?r1 = "appendIfOk [] (checkPodSecurity cluster opts)"
  let ?r2 = "appendIfOk ?r1 (checkContainers cluster opts)"
  let ?r3 = "appendIfOk ?r2 (checkResourceLimits cluster opts)"
  let ?r4 = "appendIfOk ?r3 (checkNetworkPolicies cluster opts)"
  let ?r5 = "appendIfOk ?r4 (checkRBAC cluster opts)"
  have 1: "list_all emitted ?r1"
    by (rule appendIfOk_emitted) (simp_all add: checkPodSecurity_emitted)
  have 2: "list_all emitted ?r2"
    using 1 by (rule appendIfOk_emitted) (simp add: checkContainers_emitted)
  have 3: "list_all emitted ?r3"
    using 2 by (rule appendIfOk_emitted) (simp add: checkResourceLimits_emitted)
  have 4: "list_all emitted ?r4"
    using 3 by (rule appendIfOk_emitted) (simp add: checkNetworkPolicies_emitted)
  have 5: "list_all emitted ?r5"
    using 4 by (rule appendIfOk_emitted) (simp add: checkRBAC_emitted)
  have "rs = filterResults opts ?r5"
    using assms by (auto simp: K8sChecker_Run_def Let_def split: option.splits)
  then show ?thesis
    using 5 by (simp add: list_all_filterResults)
qed

lemma capabilitiesLoop_emitted:
  "list_all emitted (capabilitiesLoop name results caps) = list_all emitted results"
  by (induction caps arbitrary: results) simp_all

lemma containerSecurityOf_emitted: "list_all emitted (containerSecurityOf name inspect)"
  by (simp add: containerSecurityOf_def Let_def capabilitiesLoop_emitted)

lemma containersLoop_emitted:
  "containersLoop docker results containers = Returns rs \<Longrightarrow>
   list_all emitted rs = list_all emitted results"
proof (induction containers arbitrary: results)
  case Nil
  then show ?case by simp
next
  case (Cons cont containers)
  show ?case
  proof (cases "Names cont")
    case Nil
    then show ?thesis using Cons.prems by simp
  next
    case (Cons name0 others)
    show ?thesis
    proof (cases "ContainerInspect docker (ContainerID cont)")
      case (Inl err)
      then show ?thesis
        using Cons.prems Cons.IH [of results] \<open>Names cont = name0 # others\<close>
        by (simp add: Let_def)
    next
      case (Inr inspect)
      then show ?thesis
        using Cons.prems \<open>Names cont = name0 # others\<close>
          Cons.IH [of "results @ containerSecurityOf
                         (if hasPrefix name0 ''/'' then drop 1 name0 else name0) inspect"]
        by (simp add: Let_def containerSecurityOf_emitted)
    qed
  qed
qed

lemma checkContainerSecurity_emitted:
  "checkContainerSecurity docker = Returns (Inr rs) \<Longrightarrow> list_all emitted rs"
  using containersLoop_emitted [of docker "[]" _ rs]
  by (auto simp: checkContainerSecurity_def split: sum.splits outcome.splits)

lemma latestTagLoop_emitted:
  "list_all emitted (latestTagLoop resource results tags) = list_all emitted results"
  by (induction tags arbitrary: results) simp_all

lemma portsLoop_emitted:
  "list_all emitted (portsLoop resource results ports) = list_all emitted results"
  by (induction ports arbitrary: results) simp_all

lemma checkImage_emitted:
  "checkImage docker imageName = Inr rs \<Longrightarrow> list_all emitted rs"
  by (auto simp: checkImage_def Let_def latestTagLoop_emitted portsLoop_emitted
      split: sum.splits if_splits)

lemma DockerChecker_Run_emitted:
  assumes "DockerChecker_Run docker opts = Returns (Inr rs)"
  shows "list_all emitted rs"
proof -
  have none: "NewClientWithOpts docker = None"
    using assms by (auto simp: DockerChecker_Run_def split: option.splits)
  obtain sub where sub: "checkContainerSecurity docker = Returns sub"
    using assms none by (auto simp: DockerChecker_Run_def split: outcome.splits)
  have e1: "list_all emitted (appendIfOk [] sub)"
    using sub by (intro appendIfOk_emitted) (simp_all add: checkContainerSecurity_emitted)
  have e2: "list_all emitted (appendIfOk (appendIfOk [] sub) (checkImage docker (Image opts)))"
    using e1 by (rule appendIfOk_emitted) (simp add: checkImage_emitted)
  have "rs = (if Image opts \<noteq> ''''
              then appendIfOk (appendIfOk [] sub) (checkImage docker (Image opts))
              else appendIfOk [] sub)"
    using assms by (simp add: DockerChecker_Run_def none sub Let_def)
  then show ?thesis
    using e1 e2 by (auto split: if_splits)
qed

lemma manifestContainer_emitted: "list_all emitted (manifestContainer resource c)"
  by (simp add: manifestContainer_def Let_def)

lemma checkKubernetesManifest_emitted:
  "checkKubernetesManifest pkgs node path = Inr rs \<Longrightarrow> list_all emitted rs"
  by (auto simp: checkKubernetesManifest_def Let_def list_all_concat_map
      manifestContainer_emitted split: sum.splits option.splits if_splits)

lemma dockerfileLine_emitted:
  "list_all emitted (scanResults (dockerfileLine pkgs resource scan line)) =
     list_all emitted (scanResults scan)"
  by (simp add: dockerfileLine_def Let_def)

lemma dockerfileLoop_emitted:
  "list_all emitted (scanResults (dockerfileLoop pkgs resource scan lines)) =
     list_all emitted (scanResults scan)"
  by (induction lines arbitrary: scan) (simp_all add: dockerfileLine_emitted)

lemma checkDockerfile_emitted:
  "checkDockerfile pkgs node path = Inr rs \<Longrightarrow> list_all emitted rs"
  by (auto simp: checkDockerfile_def Let_def dockerfileLoop_emitted split: sum.splits if_splits)

lemma composeService_emitted: "list_all emitted (composeService resource serviceName svc)"
  by (simp add: composeService_def Let_def split: option.splits yaml.splits)

lemma checkDockerCompose_emitted:
  "checkDockerCompose pkgs node path = Inr rs \<Longrightarrow> list_all emitted rs"
  by (auto simp: checkDockerCompose_def list_all_concat_map composeService_emitted
      split: sum.splits option.splits prod.splits)

lemma fileWalkFn_emitted:
  "list_all emitted results \<Longrightarrow> list_all emitted (fst (fileWalkFn pkgs path info err results))"
  by (simp add: fileWalkFn_def Let_def appendIfOk_emitted checkKubernetesManifest_emitted
      checkDockerfile_emitted checkDockerCompose_emitted)

lemma walk_keeps_aux:
  "(\<forall>p i e s. snd (walkFn p i e s) = None \<and> (P s \<longrightarrow> P (fst (walkFn p i e s)))) \<Longrightarrow> P st \<Longrightarrow>
     P (fst (walk walkFn path node st))"
  "(\<forall>p i e s. snd (walkFn p i e s) = None \<and> (P s \<longrightarrow> P (fst (walkFn p i e s)))) \<Longrightarrow> P st \<Longrightarrow>
     P (fst (walkNames walkFn path entries st))"
proof (induction walkFn path node st and walkFn path entries st rule: walk_walkNames.induct)
  case (1 walkFn path entries st)
  obtain st1 where call: "walkFn path (Dir entries) None st = (st1, None)"
    using "1.prems"(1) by (metis prod.collapse)
  have "P st1"
    using "1.prems" call by (metis fst_conv)
  then have "P (fst (walkNames walkFn path entries st1))"
    using "1.IH" call "1.prems"(1) by simp
  then show ?case
    using call by simp
next
  case (2 walkFn path err st)
  then show ?case by simp
next
  case (3 walkFn path contents st)
  then show ?case by simp
next
  case (4 walkFn path err st)
  then show ?case by simp
next
  case (5 walkFn path st)
  then show ?case by simp
next
  case (6 walkFn path name node names st)
  have nil: "\<forall>p i e s. snd (walkFn p i e s) = None"
    using "6.prems"(1) by simp
  show ?case
  proof (cases "lstat node")
    case (Some err)
    obtain st1 where call: "walkFn (Join path name) node (Some err) st = (st1, None)"
      using nil by (metis prod.collapse)
    have "P st1"
      using "6.prems" call by (metis fst_conv)
    then have "P (fst (walkNames walkFn path names st1))"
      using "6.IH"(4) [of err st1 None] Some call "6.prems"(1) by simp
    then show ?thesis
      using Some call by simp
  next
    case None
    obtain st1 where call: "walk walkFn (Join path name) node st = (st1, None)"
      using walk_nil_aux(1) [OF nil] by (metis prod.collapse)
    have "P st1"
      using "6.IH"(1) None "6.prems" call by (metis fst_conv)
    then have "P (fst (walkNames walkFn path names st1))"
      using "6.IH"(2) [of st1 None] None call "6.prems"(1) by simp
    then show ?thesis
      using None call by simp
  qed
qed

lemma Walk_keeps:
  assumes "\<And>p i e s. snd (walkFn p i e s) = None"
    and "\<And>p i e s. P s \<Longrightarrow> P (fst (walkFn p i e s))"
    and "P st"
  shows "P (fst (Walk rootPath node walkFn st))"
proof -
  have both: "\<forall>p i e s. snd (walkFn p i e s) = None \<and> (P s \<longrightarrow> P (fst (walkFn p i e s)))"
    using assms(1,2) by simp
  let ?inner = "case lstat node of
                  Some err \<Rightarrow> walkFn rootPath node (Some err) st
                | None \<Rightarrow> walk walkFn rootPath node st"
  have keep: "P (fst ?inner)"
    using assms(2) [OF assms(3)] walk_keeps_aux(1) [OF both assms(3)]
    by (cases "lstat node") simp_all
  have nil: "snd ?inner = None"
    using assms(1) walk_nil [of walkFn rootPath node st, OF assms(1)]
    by (cases "lstat node") simp_all
  obtain st1 where "?inner = (st1, None)"
    using nil by (metis prod.collapse)
  then show ?thesis
    using keep unfolding Walk_def by simp
qed

lemma FileChecker_Run_emitted: "list_all emitted (fst (FileChecker_Run pkgs rootNode opts))"
  unfolding FileChecker_Run_def
  by (rule Walk_keeps) (simp_all add: fileWalkFn_nil fileWalkFn_emitted)

lemma runAllChecks_emitted:
  assumes "runAllChecks env opts = Returns (Inr rs)"
  shows "list_all emitted rs"
proof -
  obtain d where d: "runDockerChecks env opts = Returns d"
    using assms by (auto simp: runAllChecks_def Let_def split: outcome.splits)
  have k: "list_all emitted (case runK8sChecks env opts of Inl err \<Rightarrow> [] | Inr results \<Rightarrow> results)"
    by (auto simp: runK8sChecks_def K8sChecker_Run_emitted split: sum.splits)
  have dk: "list_all emitted (case d of Inl err \<Rightarrow> [] | Inr results \<Rightarrow> results)"
    using d by (auto simp: runDockerChecks_def DockerChecker_Run_emitted split: sum.splits)
  have f: "list_all emitted (fst (runFileChecks env opts))"
    by (simp add: runFileChecks_def FileChecker_Run_emitted)
  have "rs = (case runK8sChecks env opts of Inl err \<Rightarrow> [] | Inr results \<Rightarrow> results) @
             (case d of Inl err \<Rightarrow> [] | Inr results \<Rightarrow> results) @
             fst (runFileChecks env opts)"
    using assms by (simp add: runAllChecks_def Let_def d)
  then show ?thesis
    using k dk f by simp
qed

lemma runReport_checks_emitted:
  assumes "runReport_checks env target opts = Returns (Inr rs)"
  shows "list_all emitted rs"
proof (cases "target = ''k8s'' \<or> target = ''kubernetes''")
  case True
  then have "K8sChecker_Run (Kubernetes env) opts = Inr rs"
    using assms by (simp add: runReport_checks_def runK8sChecks_def)
  then show ?thesis
    by (rule K8sChecker_Run_emitted)
next
  case notK8s: False
  show ?thesis
  proof (cases "target = ''docker''")
    case True
    then have "DockerChecker_Run (Runtime env) opts = Returns (Inr rs)"
      using assms notK8s by (simp add: runReport_checks_def runDockerChecks_def)
    then show ?thesis
      by (rule DockerChecker_Run_emitted)
  next
    case notDocker: False
    show ?thesis
    proof (cases "target = ''files'' \<or> target = ''file''")
      case True
      then have "rs = fst (runFileChecks env opts)"
        using assms notK8s notDocker
        by (simp add: runReport_checks_def split: prod.splits option.splits)
      then show ?thesis
        by (simp add: runFileChecks_def FileChecker_Run_emitted)
    next
      case notFiles: False
      show ?thesis
      proof (cases "target = ''all''")
        case True
        then have "runAllChecks env opts = Returns (Inr rs)"
          using assms notK8s notDocker notFiles by (simp add: runReport_checks_def)
        then show ?thesis
          by (rule runAllChecks_emitted)
      next
        case False
        then show ?thesis
          using assms notK8s notDocker notFiles by (simp add: runReport_checks_def)
      qed
    qed
  qed
qed

lemma dropPassed_emitted:
  "list_all emitted checked \<Longrightarrow>
   list_all emitted (Results (runReport_report title now includePassed checked))"
  by (simp add: runReport_report_def Let_def dropPassedLoop_filter list_all_iff)


lemma emitted_no_skipped:
  "list_all emitted results \<Longrightarrow> filter (\<lambda>r. Status r = StatusSkipped) results = []"
  by (induction results) (auto simp: emitted_def)

lemma runReport_build_report:
  assumes "runReport_build env args title now includePassed namespace imageName = Returns (Inr rep)"
  shows "\<exists>checked. list_all emitted checked \<and> rep = runReport_report title now includePassed checked"
  using assms runReport_checks_emitted
  by (fastforce simp: runReport_build_def Let_def split: outcome.splits sum.splits)

text \<open>The reports of the command on the sample environments.\<close>

lemma sample_networkPolicies:
  "checkNetworkPolicies sampleCluster (sampleOptions [] [] '''') = Inr [sampleNoNetworkPolicy]"
  by (simp add: checkNetworkPolicies_def sampleCluster_def sampleOptions_def
      sampleNoNetworkPolicy_def hasPrefix_def)

lemma sample_K8sChecker_Run:
  "K8sChecker_Run sampleCluster (sampleOptions [] [] '''') = Inr sampleK8sResults"
proof -
  have "initClient sampleCluster = None"
    by (simp add: sampleCluster_def)
  moreover have "checkRBAC sampleCluster (sampleOptions [] [] '''') = Inr []"
    by (simp add: checkRBAC_def sampleCluster_def)
  moreover have "filterResults (sampleOptions [] [] '''') sampleK8sResults = sampleK8sResults"
    by (simp add: filterResults_def sampleOptions_def)
  ultimately show ?thesis
    by (simp add: K8sChecker_Run_def sample_checkPodSecurity sample_checkContainers
        sample_checkResourceLimits sample_networkPolicies appendIfOk_def sampleK8sResults_def)
qed

lemma sample_options:
  "sampleOptions [] [] '''' =
     \<lparr>Namespace = '''', Image = '''', Path = '''', SkipRules = [], OnlyRules = [],
      MinSeverity = ''''\<rparr>"
  by (simp add: sampleOptions_def)

lemma sample_build_k8s:
  "runReport_build sampleEnvironment [''K8S''] ''Compliance Report'' 0 True '''' '''' =
     Returns (Inr (runReport_report ''Compliance Report'' 0 True sampleK8sResults))"
proof -
  have "ToLower (Libraries sampleEnvironment) ''K8S'' = ''k8s''"
    by (simp add: sampleEnvironment_def asciiPackages_def toLowerChar_def)
  moreover have "Kubernetes sampleEnvironment = sampleCluster"
    by (simp add: sampleEnvironment_def)
  ultimately show ?thesis
    using sample_K8sChecker_Run
    by (simp add: runReport_build_def runReport_checks_def runK8sChecks_def sample_options)
qed


lemma sample_summary:
  "Summary (runReport_report ''Compliance Report'' 0 True sampleK8sResults) =
     \<lparr>Total = 4, Passed = 2, Failed = 2, Skipped = 0, Score = Finite 50\<rparr>"
  by (simp add: runReport_report_def setTotalAndScore_def zeroSummary_def
      sampleK8sResults_def sampleNotPrivileged_def samplePullAlways_def sampleNoCpuRequest_def
      sampleNoNetworkPolicy_def float64_quot_def)





text \<open>
  C1, as the code has it. For every report the command builds, the score is
  \<open>passed / (total - skipped) * 100\<close> when \<open>total - skipped\<close> is not 0, and 0 when it is 0.
  A score of 0 does not say that the denominator is 0: the score is 0 as well when no
  result passed.
\<close>

theorem report_score:
  assumes "runReport_build env args title now includePassed namespace imageName = Returns (Inr rep)"
  shows "Score (Summary rep) =
     (if Total (Summary rep) - Skipped (Summary rep) = 0 then Finite 0
      else Finite (of_int (Passed (Summary rep)) /
                   of_int (Total (Summary rep) - Skipped (Summary rep)) * 100))"
proof -
  obtain checked where em: "list_all emitted checked"
    and rep: "rep = runReport_report title now includePassed checked"
    using runReport_build_report [OF assms] by blast
  have "filter (\<lambda>r. Status r = StatusSkipped) (Results rep) = []"
    unfolding rep using em by (intro emitted_no_skipped dropPassed_emitted)
  then have skipped: "Skipped (Summary rep) = 0"
    by (simp add: rep Summary_runReport_report setTotalAndScore_fields summaryLoop_Skipped
        zeroSummary_def)
  show ?thesis
  proof (cases "Total (Summary rep) - Skipped (Summary rep) = 0")
    case True
    then have "Results rep = []"
      using skipped by (simp add: rep Summary_runReport_report setTotalAndScore_fields)
    then have "Score (Summary rep) = Finite 0"
      by (simp add: rep Summary_runReport_report setTotalAndScore_def zeroSummary_def)
    then show ?thesis
      using True by simp
  next
    case False
    then show ?thesis
      using score_formula [OF rep False] by simp
  qed
qed

theorem report_score_witness:
  "runReport_build sampleEnvironment [''K8S''] ''Compliance Report'' 0 True '''' '''' =
     Returns (Inr (runReport_report ''Compliance Report'' 0 True sampleK8sResults)) \<and>
   Summary (runReport_report ''Compliance Report'' 0 True sampleK8sResults) =
     \<lparr>Total = 4, Passed = 2, Failed = 2, Skipped = 0, Score = Finite 50\<rparr>"
  using report_score [OF sample_build_k8s]
  by (simp add: sample_build_k8s sample_summary)

text \<open>
  C1 as stated fails: the score is not 0 exactly when the denominator is 0. On a cluster
  without pods whose one namespace has no network policy, the command builds a report
  of one failed result: the denominator \<open>total - skipped\<close> is 1 and the score is 0.
\<close>

theorem score_zero_counterexample:
  "runReport_build bareEnvironment [] ''Compliance Report'' 0 True '''' '''' =
     Returns (Inr (runReport_report ''Compliance Report'' 0 True [sampleNoNetworkPolicy])) \<and>
   Summary (runReport_report ''Compliance Report'' 0 True [sampleNoNetworkPolicy]) =
     \<lparr>Total = 1, Passed = 0, Failed = 1, Skipped = 0, Score = Finite 0\<rparr>"
proof -
  have k: "runK8sChecks bareEnvironment (sampleOptions [] [] '''') = Inr [sampleNoNetworkPolicy]"
    by (simp add: runK8sChecks_def bareEnvironment_def K8sChecker_Run_def sampleCluster_def
        checkPodSecurity_def checkContainers_def checkResourceLimits_def
        checkNetworkPolicies_def checkRBAC_def appendIfOk_def sampleOptions_def
        filterResults_def sampleNoNetworkPolicy_def hasPrefix_def)
  have d: "runDockerChecks bareEnvironment (sampleOptions [] [] '''') = Returns (Inr [])"
    by (simp add: runDockerChecks_def bareEnvironment_def unreachableDocker_def
        sampleOptions_def DockerChecker_Run_def checkContainerSecurity_def appendIfOk_def)
  have f: "runFileChecks bareEnvironment (sampleOptions [] [] '''') = ([], None)"
    by (simp add: runFileChecks_def bareEnvironment_def FileChecker_Run_def Walk_def
        fileWalkFn_def)
  have "runAllChecks bareEnvironment (sampleOptions [] [] '''') =
        Returns (Inr [sampleNoNetworkPolicy])"
    by (simp add: runAllChecks_def k d f)
  then show ?thesis
    by (simp add: runReport_build_def runReport_checks_def sample_options [symmetric]
        runReport_report_def setTotalAndScore_def zeroSummary_def sampleNoNetworkPolicy_def
        float64_quot_def)
qed

end
